theory Spec2Isabelle
  imports Main
begin

section \<open>Go library functions written out\<close>

text \<open>
  \<^verbatim>\<open>strings.Join(elems, sep)\<close>: the elements in order, \<open>sep\<close> between neighbours.
\<close>

fun Join :: "string list \<Rightarrow> string \<Rightarrow> string" where
  "Join [] sep = []"
| "Join [x] sep = x"
| "Join (x # y # ys) sep = x @ sep @ Join (y # ys) sep"

text \<open>
  How \<^verbatim>\<open>fmt\<close> prints a \<^verbatim>\<open>[]string\<close> under \<^verbatim>\<open>%s\<close> and \<^verbatim>\<open>%v\<close>:
  the elements separated by one space, in square brackets.
\<close>

definition fmtStrings :: "string list \<Rightarrow> string" where
  "fmtStrings vs = ''['' @ Join vs '' '' @ '']''"

section \<open>Configuration tree\<close>

text \<open>
  The structs of the configuration and their lookup methods are declared in a file of the
  package that is not part of the sources at hand; the handler only calls them. The fields
  below are those the handler reads.
\<close>

record Threshold =
  thKey :: string
  thName :: string
  thColor :: string
  thValue :: string
  thUnit :: string
  thQueryExpression :: string

record Graph =
  grName :: string
  grQueryExpression :: string
  grThresholds :: "Threshold list"

record Row =
  rowName :: string
  rowGraphs :: "Graph list"

record Dashboard =
  dashGroupKind :: string
  dashDefault :: bool
  dashRows :: "Row list"
  dashProviderType :: string

record Application =
  appName :: string
  appDefault :: bool
  appDashboards :: "Dashboard list"

record MetricsConfigProvider =
  Applications :: "Application list"

text \<open>
  Modelled from the spec: \<^verbatim>\<open>MetricsConfigProvider.getApp\<close> is missing from the sources.
  Exact-name match; else the application flagged default; else not found.
\<close>

definition getApp :: "MetricsConfigProvider \<Rightarrow> string \<Rightarrow> Application option" where
  "getApp c name =
     (case find (\<lambda>a. appName a = name) (Applications c) of
        Some a \<Rightarrow> Some a
      | None \<Rightarrow> find appDefault (Applications c))"

text \<open>
  Modelled from the spec: \<^verbatim>\<open>Application.getDashBoard\<close> is missing from the sources.
  The same two-step rule within the application's dashboards.
\<close>

definition getDashBoard :: "Application \<Rightarrow> string \<Rightarrow> Dashboard option" where
  "getDashBoard a groupKind =
     (case find (\<lambda>d. dashGroupKind d = groupKind) (appDashboards a) of
        Some d \<Rightarrow> Some d
      | None \<Rightarrow> find dashDefault (appDashboards a))"

text \<open>
  Modelled from the spec: \<^verbatim>\<open>Dashboard.getRow\<close> and \<^verbatim>\<open>Row.getGraph\<close> are missing
  from the sources. Exact match only, no default.
\<close>

definition getRow :: "Dashboard \<Rightarrow> string \<Rightarrow> Row option" where
  "getRow d name = find (\<lambda>r. rowName r = name) (dashRows d)"

definition getGraph :: "Row \<Rightarrow> string \<Rightarrow> Graph option" where
  "getGraph r name = find (\<lambda>g. grName g = name) (rowGraphs r)"

section \<open>Responses\<close>

record ThresholdResponse =
  trData :: string
  trKey :: string
  trName :: string
  trColor :: string
  trValue :: string
  trUnit :: string

record AggregatedResponse =
  arData :: string
  arThresholds :: "ThresholdResponse list"

text \<open>
  What the handler hands to \<^verbatim>\<open>ctx.JSON\<close>: a string, an \<^verbatim>\<open>error\<close> value (kept by
  its message), or the aggregated response. A response is the status code with that body;
  a handler run yields \<open>None\<close> when it returns without calling \<^verbatim>\<open>ctx.JSON\<close>.
\<close>

datatype body = JSONString string | JSONError string | JSONData AggregatedResponse

type_synonym response = "nat \<times> body"

definition StatusOK :: nat where
  "StatusOK = 200"

definition StatusBadRequest :: nat where
  "StatusBadRequest = 400"

section \<open>Collaborators of the handler\<close>

text \<open>
  The template engine (\<^verbatim>\<open>template.New("query").Parse\<close>, then \<^verbatim>\<open>Execute\<close> into a
  buffer), \<^verbatim>\<open>time.ParseDuration\<close>, \<^verbatim>\<open>json.Marshal\<close> and the Prometheus client's
  \<^verbatim>\<open>QueryRange\<close> are libraries: the handler is modelled over any behaviour of theirs.
  A library error is kept by its message. \<open>'t\<close> is the parsed template, \<open>'v\<close> a query
  result (\<^verbatim>\<open>model.Value\<close>, \<open>None\<close> for the nil interface), \<open>'b\<close> the state of the
  backend, clock included; durations are nanoseconds. \<^verbatim>\<open>QueryRange\<close> returns result,
  warnings and error, and the backend's next state.
\<close>

record ('t, 'v, 'b) deps =
  tmplParse :: "string \<Rightarrow> string + 't"
  tmplExecute :: "'t \<Rightarrow> (string \<rightharpoonup> string) \<Rightarrow> string + string"
  ParseDuration :: "string \<Rightarrow> string + int"
  jsonMarshal :: "'v option \<Rightarrow> string + string"
  QueryRange :: "'b \<Rightarrow> string \<Rightarrow> int \<Rightarrow> ('v option \<times> string list \<times> string option) \<times> 'b"

text \<open>
  The calls a request makes are recorded in order: each template handed to the engine's
  parser, and each range query sent to the backend with its rendered expression and its
  duration.
\<close>

datatype event = TemplateParse string | BackendQuery string int

record 'b world =
  trace :: "event list"
  backend :: 'b

text \<open>
  The request as the handler reads it: the four path parameters (\<^verbatim>\<open>ctx.Param\<close>) and the
  parsed query string (\<^verbatim>\<open>ctx.Request.URL.Query()\<close>).
\<close>

record request =
  paramApplication :: string
  paramGroupkind :: string
  paramRow :: string
  paramGraph :: string
  urlQuery :: "string \<rightharpoonup> string list"

text \<open>\<^verbatim>\<open>ctx.Query(key)\<close>: the first value of the key, the empty string when absent.\<close>

definition Query :: "request \<Rightarrow> string \<Rightarrow> string" where
  "Query req key = (case urlQuery req key of Some (v # vs) \<Rightarrow> v | _ \<Rightarrow> [])"

section \<open>executeGraphQuery\<close>

text \<open>The loop building \<^verbatim>\<open>env1\<close>: every key keeps its values joined by a comma.\<close>

definition env1 :: "(string \<rightharpoonup> string list) \<Rightarrow> (string \<rightharpoonup> string)" where
  "env1 env = (\<lambda>k. case env k of None \<Rightarrow> None | Some v \<Rightarrow> Some (Join v '',''))"

definition executeGraphQuery ::
  "('t, 'v, 'b) deps \<Rightarrow> string \<Rightarrow> (string \<rightharpoonup> string list) \<Rightarrow> int \<Rightarrow> 'b world
     \<Rightarrow> ('v option \<times> string list \<times> string option) \<times> 'b world" where
  "executeGraphQuery dp queryExpression env duration w =
     (let w1 = w\<lparr>trace := trace w @ [TemplateParse queryExpression]\<rparr> in
      case tmplParse dp queryExpression of
        Inl err \<Rightarrow> ((None, [], Some (''error parsing query template: '' @ err)), w1)
      | Inr tmpl \<Rightarrow>
          (case tmplExecute dp tmpl (env1 env) of
             Inl err \<Rightarrow> ((None, [], Some (''error executing template: '' @ err)), w1)
           | Inr strQuery \<Rightarrow>
               (case QueryRange dp (backend w1) strQuery duration of
                  ((result, warnings, err), b) \<Rightarrow>
                    (let w2 = w1\<lparr>trace := trace w1 @ [BackendQuery strQuery duration],
                                 backend := b\<rparr> in
                     case err of
                       Some e \<Rightarrow>
                         ((None, warnings, Some (''error querying prometheus: '' @ e)), w2)
                     | None \<Rightarrow>
                         if length warnings > 0
                         then ((result, warnings,
                                Some (''query warnings: '' @ fmtStrings warnings)), w2)
                         else ((result, [], None), w2)))))"

text \<open>
  The first half of \<^verbatim>\<open>executeGraphQuery\<close> on its own, for stating what is sent: the
  template is parsed, the parameters are flattened, the template is executed. The result
  is the rendered expression or the error \<^verbatim>\<open>executeGraphQuery\<close> returns.
\<close>

definition render :: "('t, 'v, 'b) deps \<Rightarrow> string \<Rightarrow> (string \<rightharpoonup> string list) \<Rightarrow> string + string" where
  "render dp queryExpression env =
     (case tmplParse dp queryExpression of
        Inl err \<Rightarrow> Inl (''error parsing query template: '' @ err)
      | Inr tmpl \<Rightarrow>
          (case tmplExecute dp tmpl (env1 env) of
             Inl err \<Rightarrow> Inl (''error executing template: '' @ err)
           | Inr strQuery \<Rightarrow> Inr strQuery))"

text \<open>The range queries of a trace, in order.\<close>

fun backendQueries :: "event list \<Rightarrow> (string \<times> int) list" where
  "backendQueries [] = []"
| "backendQueries (TemplateParse q # evs) = backendQueries evs"
| "backendQueries (BackendQuery q d # evs) = (q, d) # backendQueries evs"

text \<open>\<^verbatim>\<open>time.Hour\<close>, in nanoseconds.\<close>

definition Hour :: int where
  "Hour = 3600000000000"

section \<open>execute\<close>

text \<open>The body of the loop over \<^verbatim>\<open>graph.Thresholds\<close>: one threshold, evaluated.\<close>

definition thresholdStep ::
  "('t, 'v, 'b) deps \<Rightarrow> (string \<rightharpoonup> string list) \<Rightarrow> int \<Rightarrow> Threshold \<Rightarrow> 'b world
     \<Rightarrow> (response + ThresholdResponse) \<times> 'b world" where
  "thresholdStep dp env duration threshold w =
     (case (if thValue threshold \<noteq> []
            then executeGraphQuery dp (thValue threshold) env duration w
            else executeGraphQuery dp (thQueryExpression threshold) env duration w) of
        ((result, warnings, err), w') \<Rightarrow>
          (case err of
             Some e \<Rightarrow> (Inl (StatusBadRequest, JSONError e), w')
           | None \<Rightarrow>
               if length warnings > 0
               then (Inl (StatusBadRequest,
                          JSONString (''query warnings: '' @ fmtStrings warnings)), w')
               else
                 (case jsonMarshal dp result of
                    Inl e \<Rightarrow>
                      (Inl (StatusBadRequest,
                            JSONError (''error marshaling the threshold response: '' @ e)), w')
                  | Inr raw \<Rightarrow>
                      (Inr \<lparr>trData = raw, trKey = thKey threshold, trName = thName threshold,
                            trColor = thColor threshold, trValue = thValue threshold,
                            trUnit = thUnit threshold\<rparr>, w'))))"

text \<open>
  The loop: \<open>finalResultArr\<close> grows by one response per threshold, and the first failure
  writes its response and returns.
\<close>

fun thresholdLoop ::
  "('t, 'v, 'b) deps \<Rightarrow> (string \<rightharpoonup> string list) \<Rightarrow> int \<Rightarrow> Threshold list
     \<Rightarrow> ThresholdResponse list \<Rightarrow> 'b world
     \<Rightarrow> (response + ThresholdResponse list) \<times> 'b world" where
  "thresholdLoop dp env duration [] finalResultArr w = (Inr finalResultArr, w)"
| "thresholdLoop dp env duration (threshold # rest) finalResultArr w =
     (case thresholdStep dp env duration threshold w of
        (Inl r, w') \<Rightarrow> (Inl r, w')
      | (Inr temp, w') \<Rightarrow> thresholdLoop dp env duration rest (finalResultArr @ [temp]) w')"

text \<open>The block of \<^verbatim>\<open>execute\<close> under \<^verbatim>\<open>if graph != nil\<close>.\<close>

definition executeGraph ::
  "('t, 'v, 'b) deps \<Rightarrow> Graph \<Rightarrow> (string \<rightharpoonup> string list) \<Rightarrow> int \<Rightarrow> 'b world
     \<Rightarrow> response option \<times> 'b world" where
  "executeGraph dp graph env duration w =
     (case executeGraphQuery dp (grQueryExpression graph) env duration w of
        ((result, warnings, err), w1) \<Rightarrow>
          (case err of
             Some e \<Rightarrow> (Some (StatusBadRequest, JSONError e), w1)
           | None \<Rightarrow>
               if length warnings > 0
               then (Some (StatusBadRequest,
                           JSONString (''query warnings: '' @ fmtStrings warnings)), w1)
               else
                 (case jsonMarshal dp result of
                    Inl e \<Rightarrow>
                      (Some (StatusBadRequest,
                             JSONError (''error marshaling the data: '' @ e)), w1)
                  | Inr raw \<Rightarrow>
                      (case thresholdLoop dp env duration (grThresholds graph) [] w1 of
                         (Inl r, w2) \<Rightarrow> (Some r, w2)
                       | (Inr finalResultArr, w2) \<Rightarrow>
                           (Some (StatusOK,
                                  JSONData \<lparr>arData = raw, arThresholds = finalResultArr\<rparr>),
                            w2)))))"

definition execute ::
  "('t, 'v, 'b) deps \<Rightarrow> MetricsConfigProvider \<Rightarrow> request \<Rightarrow> 'b world
     \<Rightarrow> response option \<times> 'b world" where
  "execute dp config req w =
     (let durationStr = Query req ''duration'';
          durationStr = (if durationStr = [] then ''1h'' else durationStr) in
      case ParseDuration dp durationStr of
        Inl err \<Rightarrow> (Some (StatusBadRequest, JSONString (''Invalid duration format :'' @ err)), w)
      | Inr duration \<Rightarrow>
          (case getApp config (paramApplication req) of
             None \<Rightarrow>
               (Some (StatusBadRequest, JSONString ''Requested/Default Application not found''), w)
           | Some app \<Rightarrow>
               (case getDashBoard app (paramGroupkind req) of
                  None \<Rightarrow>
                    (Some (StatusBadRequest,
                           JSONString ''Requested/Default Dashboard not found''), w)
                | Some dashboard \<Rightarrow>
                    (case getRow dashboard (paramRow req) of
                       None \<Rightarrow> (Some (StatusBadRequest, JSONString ''Requested Row not found''), w)
                     | Some r \<Rightarrow>
                         (case getGraph r (paramGraph req) of
                            None \<Rightarrow> (None, w)
                          | Some g \<Rightarrow> executeGraph dp g (urlQuery req) duration w)))))"

section \<open>headerRoundTripper\<close>

text \<open>
  \<^verbatim>\<open>http.Header\<close> is a map from header names to value lists; \<^verbatim>\<open>Header.Add\<close> stores
  under the canonical form of the name (\<^verbatim>\<open>textproto.CanonicalMIMEHeaderKey\<close>): a name
  made of token bytes only gets its first letter and every letter after a hyphen in upper
  case and the other letters in lower case; any other name is left as it is.
\<close>

definition validHeaderFieldByte :: "char \<Rightarrow> bool" where
  "validHeaderFieldByte c =
     (let n = (of_char c :: nat) in
      (48 \<le> n \<and> n \<le> 57) \<or> (65 \<le> n \<and> n \<le> 90) \<or> (97 \<le> n \<and> n \<le> 122)
      \<or> n = 39 \<or> c \<in> set ''!#$%&*+-.^_`|~'')"

fun canonicalize :: "bool \<Rightarrow> string \<Rightarrow> string" where
  "canonicalize upper [] = []"
| "canonicalize upper (c # cs) =
     (let n = (of_char c :: nat);
          c' = (if upper \<and> 97 \<le> n \<and> n \<le> 122 then char_of (n - 32)
                else if \<not> upper \<and> 65 \<le> n \<and> n \<le> 90 then char_of (n + 32)
                else c)
      in c' # canonicalize (c' = CHR ''-'') cs)"

definition CanonicalMIMEHeaderKey :: "string \<Rightarrow> string" where
  "CanonicalMIMEHeaderKey s =
     (if list_all validHeaderFieldByte s then canonicalize True s else s)"

text \<open>
  The header map as an association list with distinct names. Go ranges over a map in no
  fixed order; the list's order stands for the order of one run.
\<close>

type_synonym Header = "(string \<times> string list) list"

fun appendValue :: "Header \<Rightarrow> string \<Rightarrow> string \<Rightarrow> Header" where
  "appendValue [] key v = [(key, [v])]"
| "appendValue ((k, vs) # h) key v =
     (if k = key then (k, vs @ [v]) # h else (k, vs) # appendValue h key v)"

definition HeaderAdd :: "Header \<Rightarrow> string \<Rightarrow> string \<Rightarrow> Header" where
  "HeaderAdd h key v = appendValue h (CanonicalMIMEHeaderKey key) v"

record Request =
  URL :: string
  reqHeader :: Header

text \<open>
  The first loop of \<^verbatim>\<open>RoundTrip\<close>: each configured header is added to the request and
  a line is printed for it. Output is kept as the list of printed lines.
\<close>

fun addHeaders :: "(string \<times> string) list \<Rightarrow> Header \<Rightarrow> string list \<Rightarrow> Header \<times> string list" where
  "addHeaders [] h out = (h, out)"
| "addHeaders ((k, v) # headers) h out =
     addHeaders headers (HeaderAdd h k v)
       (out @ [if k \<noteq> ''apikey'' then ''Added header: '' @ k @ '': '' @ v
               else ''Added header: '' @ k @ '': [REDACTED]''])"

text \<open>The second loop: one line for every header of the request.\<close>

fun showHeaders :: "Header \<Rightarrow> string list" where
  "showHeaders [] = []"
| "showHeaders ((k, v) # h) =
     (if k \<noteq> ''apikey'' then ''  '' @ k @ '': '' @ fmtStrings v
      else ''  '' @ k @ '': [REDACTED]'') # showHeaders h"

text \<open>
  \<^verbatim>\<open>RoundTrip\<close>: the printed lines, and the request handed to the wrapped transport.
\<close>

definition RoundTrip :: "(string \<times> string) list \<Rightarrow> Request \<Rightarrow> string list \<times> Request" where
  "RoundTrip headers req =
     (case addHeaders headers (reqHeader req) [''Making request to: '' @ URL req] of
        (h, out) \<Rightarrow>
          (out @ [''All request headers:''] @ showHeaders h, req\<lparr>reqHeader := h\<rparr>))"

text \<open>
  \<^verbatim>\<open>PrometheusProvider.init\<close>, the part that reads \<^verbatim>\<open>PROMETHEUS_APIKEY\<close>: the line
  logged and the headers of the round tripper installed (\<open>None\<close>: the plain transport).
\<close>

definition initRoundTripper :: "string \<Rightarrow> string list \<times> (string \<times> string) list option" where
  "initRoundTripper apiKey =
     (if apiKey \<noteq> []
      then ([''Using PROMETHEUS_APIKEY from environment variable''], Some [(''apikey'', apiKey)])
      else ([], None))"

section \<open>An instance of the collaborators\<close>

text \<open>
  The handler above is defined over any library behaviour. The instance below gives one,
  so that a request can be run. It follows Go's libraries on a fragment of their inputs
  and refuses what lies outside it.
\<close>

subsection \<open>Templates\<close>

text \<open>
  The fragment of \<^verbatim>\<open>html/template\<close>: literal text without \<^verbatim>\<open><\<close> (so that the
  engine stays in its HTML text context) and actions \<^verbatim>\<open>{{.name}}\<close>. In that context
  the engine prints a field through its HTML escaper, and a key the map lacks prints as
  the empty string.
\<close>

datatype node = TextNode string | FieldNode string

text \<open>Splits a string at the first doubled delimiter character.\<close>

fun breakOn :: "char \<Rightarrow> string \<Rightarrow> (string \<times> string) option" where
  "breakOn d [] = None"
| "breakOn d [c] = None"
| "breakOn d (c # c' # s) =
     (if c = d \<and> c' = d then Some ([], s)
      else (case breakOn d (c' # s) of None \<Rightarrow> None | Some (p, r) \<Rightarrow> Some (c # p, r)))"

definition isDigit :: "char \<Rightarrow> bool" where
  "isDigit c = (let n = (of_char c :: nat) in 48 \<le> n \<and> n \<le> 57)"

definition isAlphaNumeric :: "char \<Rightarrow> bool" where
  "isAlphaNumeric c =
     (let n = (of_char c :: nat) in
      n = 95 \<or> (48 \<le> n \<and> n \<le> 57) \<or> (65 \<le> n \<and> n \<le> 90) \<or> (97 \<le> n \<and> n \<le> 122))"

definition trimSpace :: "string \<Rightarrow> string" where
  "trimSpace s = rev (dropWhile (\<lambda>c. c = CHR '' '') (rev (dropWhile (\<lambda>c. c = CHR '' '') s)))"

definition fieldOf :: "string \<Rightarrow> string option" where
  "fieldOf a =
     (case trimSpace a of
        [] \<Rightarrow> None
      | c # name \<Rightarrow>
          if c = CHR ''.'' \<and> name \<noteq> [] \<and> list_all isAlphaNumeric name \<and> \<not> isDigit (hd name)
          then Some name else None)"

definition textNode :: "string \<Rightarrow> node list" where
  "textNode s = (if s = [] then [] else [TextNode s])"

function goParse :: "string \<Rightarrow> string + node list" where
  "goParse s =
     (case breakOn (CHR ''{'') s of
        None \<Rightarrow>
          if CHR ''<'' \<in> set s then Inl ''template: query: markup is outside the fragment''
          else Inr (textNode s)
      | Some (lit, s1) \<Rightarrow>
          (case breakOn (CHR ''}'') s1 of
             None \<Rightarrow> Inl ''template: query:1: unclosed action''
           | Some (action, s2) \<Rightarrow>
               if CHR ''<'' \<in> set lit then Inl ''template: query: markup is outside the fragment''
               else
                 (case fieldOf action of
                    None \<Rightarrow> Inl ''template: query:1: action is outside the fragment''
                  | Some name \<Rightarrow>
                      (case goParse s2 of
                         Inl e \<Rightarrow> Inl e
                       | Inr nodes \<Rightarrow> Inr (textNode lit @ FieldNode name # nodes)))))"
  by pat_completeness auto
termination
proof (relation "measure length", goal_cases)
  case 1
  show ?case by simp
next
  case (2 s x lit s1 y action s2 name)
  have shorter: "breakOn d u = Some (p, r) \<Longrightarrow> length r < length u" for d u p r
    by (induction d u arbitrary: p r rule: breakOn.induct) (auto split: if_splits option.splits)
  from 2 have "length s1 < length s" and "length s2 < length s1"
    by (auto dest: shorter)
  then show ?case by simp
qed

text \<open>The replacement table of the engine's HTML escaper.\<close>

definition htmlReplacement :: "char \<Rightarrow> string" where
  "htmlReplacement c =
     (if c = CHR 0x00 then [CHR 0xEF, CHR 0xBF, CHR 0xBD]
      else if c = CHR 0x22 then ''&#34;''
      else if c = CHR ''&'' then ''&amp;''
      else if c = CHR 0x27 then ''&#39;''
      else if c = CHR ''+'' then ''&#43;''
      else if c = CHR ''<'' then ''&lt;''
      else if c = CHR ''>'' then ''&gt;''
      else [c])"

definition htmlEscape :: "string \<Rightarrow> string" where
  "htmlEscape s = concat (map htmlReplacement s)"

fun printNode :: "(string \<rightharpoonup> string) \<Rightarrow> node \<Rightarrow> string" where
  "printNode data (TextNode s) = s"
| "printNode data (FieldNode name) =
     (case data name of None \<Rightarrow> [] | Some v \<Rightarrow> htmlEscape v)"

definition goExecute :: "node list \<Rightarrow> (string \<rightharpoonup> string) \<Rightarrow> string + string" where
  "goExecute nodes data = Inr (concat (map (printNode data) nodes))"

subsection \<open>Durations\<close>

text \<open>
  The fragment of \<^verbatim>\<open>time.ParseDuration\<close>: an optional sign and one or more decimal
  integers with units. A fraction, which Go evaluates in floating point, lies outside.
  The value is held in an unsigned 64-bit accumulator with the overflow checks of the
  library: the sum of the parts wraps at \<open>2 ^ 64\<close> before it is checked.
\<close>

fun leadingInt :: "string \<Rightarrow> int \<Rightarrow> int option" where
  "leadingInt [] x = Some x"
| "leadingInt (c # s) x =
     (if x > 2 ^ 63 div 10 then None
      else (let y = x * 10 + (of_char c - 48) in
            if y > 2 ^ 63 then None else leadingInt s y))"

definition unitMap :: "string \<Rightarrow> int option" where
  "unitMap u =
     (if u = ''ns'' then Some 1
      else if u = ''us'' \<or> u = [CHR 0xC2, CHR 0xB5, CHR ''s'']
              \<or> u = [CHR 0xCE, CHR 0xBC, CHR ''s''] then Some 1000
      else if u = ''ms'' then Some 1000000
      else if u = ''s'' then Some 1000000000
      else if u = ''m'' then Some 60000000000
      else if u = ''h'' then Some 3600000000000
      else None)"

text \<open>
  The library's \<^verbatim>\<open>quote\<close>: the literal in double quotes, a quote or a backslash
  escaped by a backslash, a byte below the space or above ASCII written as \<^verbatim>\<open>\xhh\<close>.
\<close>

definition lowerhex :: "nat \<Rightarrow> char" where
  "lowerhex n = ''0123456789abcdef'' ! (n mod 16)"

definition quoteByte :: "char \<Rightarrow> string" where
  "quoteByte c =
     (let n = (of_char c :: nat) in
      if n \<ge> 128 \<or> n < 32 then [CHR 0x5C, CHR ''x'', lowerhex (n div 16), lowerhex (n mod 16)]
      else if c = CHR 0x22 \<or> c = CHR 0x5C then [CHR 0x5C, c]
      else [c])"

definition quote :: "string \<Rightarrow> string" where
  "quote s = [CHR 0x22] @ concat (map quoteByte s) @ [CHR 0x22]"

function durationParts :: "string \<Rightarrow> string \<Rightarrow> int \<Rightarrow> string + int" where
  "durationParts orig s d =
     (if s = [] then Inr d
      else if \<not> (hd s = CHR ''.'' \<or> isDigit (hd s))
      then Inl (''time: invalid duration '' @ quote orig)
      else
        (case leadingInt (takeWhile isDigit s) 0 of
           None \<Rightarrow> Inl (''time: invalid duration '' @ quote orig)
         | Some v \<Rightarrow>
             (let s1 = dropWhile isDigit s in
              if s1 \<noteq> [] \<and> hd s1 = CHR ''.''
              then Inl ''time: a fraction is outside the fragment''
              else
                (let u = takeWhile (\<lambda>c. \<not> (c = CHR ''.'' \<or> isDigit c)) s1;
                     s2 = dropWhile (\<lambda>c. \<not> (c = CHR ''.'' \<or> isDigit c)) s1 in
                 if u = [] then Inl (''time: missing unit in duration '' @ quote orig)
                 else
                   (case unitMap u of
                      None \<Rightarrow>
                        Inl (''time: unknown unit '' @ quote u @ '' in duration '' @ quote orig)
                    | Some unit \<Rightarrow>
                        if v > 2 ^ 63 div unit
                        then Inl (''time: invalid duration '' @ quote orig)
                        else if (d + v * unit) mod 2 ^ 64 > 2 ^ 63
                        then Inl (''time: invalid duration '' @ quote orig)
                        else durationParts orig s2 ((d + v * unit) mod 2 ^ 64))))))"
  by pat_completeness auto
termination
proof (relation "measure (\<lambda>(orig, s, d). length s)", goal_cases)
  case 1
  show ?case by simp
next
  case (2 orig s d v s1 u s2 unit)
  have "length s2 < length s1"
    using 2
    by (metis length_append takeWhile_dropWhile_id length_greater_0_conv less_add_same_cancel2)
  moreover have "length s1 \<le> length s"
    using 2 by (simp add: length_dropWhile_le)
  ultimately show ?case by simp
qed

definition goParseDuration :: "string \<Rightarrow> string + int" where
  "goParseDuration orig =
     (let neg = (orig \<noteq> [] \<and> hd orig = CHR ''-'');
          s = (if orig \<noteq> [] \<and> (hd orig = CHR ''-'' \<or> hd orig = CHR ''+'')
               then tl orig else orig) in
      if s = ''0'' then Inr 0
      else if s = [] then Inl (''time: invalid duration '' @ quote orig)
      else
        (case durationParts orig s 0 of
           Inl e \<Rightarrow> Inl e
         | Inr d \<Rightarrow>
             if neg then Inr (- d)
             else if d > 2 ^ 63 - 1 then Inl (''time: invalid duration '' @ quote orig)
             else Inr d))"

subsection \<open>A scripted backend\<close>

text \<open>
  A backend for examples. A result is held as its JSON text, which marshals to itself;
  the state counts the queries served. The expression \<^verbatim>\<open>slow\<close> answers with data and a
  warning, \<^verbatim>\<open>down\<close> with a transport error, any other with a one-sample vector.
\<close>

definition scriptedMarshal :: "string option \<Rightarrow> string + string" where
  "scriptedMarshal r = (case r of None \<Rightarrow> Inr ''null'' | Some j \<Rightarrow> Inr j)"

definition scriptedQueryRange ::
  "nat \<Rightarrow> string \<Rightarrow> int \<Rightarrow> (string option \<times> string list \<times> string option) \<times> nat" where
  "scriptedQueryRange n q d =
     (if q = ''slow'' then ((Some ''[[1,0.5]]'', [''partial data''], None), Suc n)
      else if q = ''down'' then ((None, [], Some ''connection refused''), Suc n)
      else ((Some ''[[1,0.8]]'', [], None), Suc n))"

definition goDeps :: "(node list, string, nat) deps" where
  "goDeps = \<lparr>tmplParse = goParse, tmplExecute = goExecute, ParseDuration = goParseDuration,
             jsonMarshal = scriptedMarshal, QueryRange = scriptedQueryRange\<rparr>"

section \<open>An example configuration\<close>

text \<open>
  One application with one dashboard and one row. The graph \<^verbatim>\<open>usage\<close> has a literal
  threshold and an expression threshold; the threshold of the graph \<^verbatim>\<open>limits\<close> has
  both a value, which is a template, and an expression; the second of the three thresholds
  of the graph \<^verbatim>\<open>alerts\<close> asks for the expression the scripted backend fails on, and
  the second of the graph \<^verbatim>\<open>latency\<close> for the one it answers with a warning. The
  template of the graph \<^verbatim>\<open>broken\<close> does not parse, nor does the value of the second
  threshold of the graph \<^verbatim>\<open>draft\<close>.
\<close>

definition usageGraph :: Graph where
  "usageGraph =
     \<lparr>grName = ''usage'', grQueryExpression = ''sum(rate(cpu{ns={{.namespace}}}[5m]))'',
      grThresholds =
        [\<lparr>thKey = ''warn'', thName = ''warning'', thColor = ''yellow'', thValue = ''80'',
          thUnit = ''%'', thQueryExpression = []\<rparr>,
         \<lparr>thKey = ''crit'', thName = ''critical'', thColor = ''red'', thValue = [],
          thUnit = ''%'', thQueryExpression = ''max(cpu)''\<rparr>]\<rparr>"

definition limitsGraph :: Graph where
  "limitsGraph =
     \<lparr>grName = ''limits'', grQueryExpression = ''up'',
      grThresholds =
        [\<lparr>thKey = ''limit'', thName = ''limit'', thColor = ''red'', thValue = ''{{.limit}}'',
          thUnit = ''%'', thQueryExpression = ''max(cpu)''\<rparr>]\<rparr>"

definition alertsGraph :: Graph where
  "alertsGraph =
     \<lparr>grName = ''alerts'', grQueryExpression = ''up'',
      grThresholds =
        [\<lparr>thKey = ''warn'', thName = ''warning'', thColor = ''yellow'', thValue = ''80'',
          thUnit = ''%'', thQueryExpression = []\<rparr>,
         \<lparr>thKey = ''crit'', thName = ''critical'', thColor = ''red'', thValue = [],
          thUnit = ''%'', thQueryExpression = ''down''\<rparr>,
         \<lparr>thKey = ''info'', thName = ''information'', thColor = ''blue'', thValue = [],
          thUnit = ''%'', thQueryExpression = ''max(cpu)''\<rparr>]\<rparr>"

definition latencyGraph :: Graph where
  "latencyGraph =
     \<lparr>grName = ''latency'', grQueryExpression = ''up'',
      grThresholds =
        [\<lparr>thKey = ''warn'', thName = ''warning'', thColor = ''yellow'', thValue = ''80'',
          thUnit = ''ms'', thQueryExpression = []\<rparr>,
         \<lparr>thKey = ''crit'', thName = ''critical'', thColor = ''red'', thValue = [],
          thUnit = ''ms'', thQueryExpression = ''slow''\<rparr>,
         \<lparr>thKey = ''info'', thName = ''information'', thColor = ''blue'', thValue = [],
          thUnit = ''ms'', thQueryExpression = ''max(cpu)''\<rparr>]\<rparr>"

definition brokenGraph :: Graph where
  "brokenGraph = \<lparr>grName = ''broken'', grQueryExpression = ''rate(cpu{{'', grThresholds = []\<rparr>"

definition draftGraph :: Graph where
  "draftGraph =
     \<lparr>grName = ''draft'', grQueryExpression = ''up'',
      grThresholds =
        [\<lparr>thKey = ''warn'', thName = ''warning'', thColor = ''yellow'', thValue = ''80'',
          thUnit = ''%'', thQueryExpression = []\<rparr>,
         \<lparr>thKey = ''crit'', thName = ''critical'', thColor = ''red'', thValue = ''{{.limit'',
          thUnit = ''%'', thQueryExpression = ''max(cpu)''\<rparr>]\<rparr>"

definition exampleConfig :: MetricsConfigProvider where
  "exampleConfig =
     \<lparr>Applications =
        [\<lparr>appName = ''default'', appDefault = True,
          appDashboards =
            [\<lparr>dashGroupKind = ''Deployment'', dashDefault = False,
              dashRows =
                [\<lparr>rowName = ''cpu'',
                  rowGraphs =
                    [usageGraph, limitsGraph, alertsGraph, latencyGraph, brokenGraph,
                     draftGraph]\<rparr>],
              dashProviderType = []\<rparr>]\<rparr>]\<rparr>"

definition exampleRequest :: "string \<Rightarrow> string \<Rightarrow> (string \<rightharpoonup> string list) \<Rightarrow> request" where
  "exampleRequest r g q =
     \<lparr>paramApplication = ''default'', paramGroupkind = ''Deployment'', paramRow = r,
      paramGraph = g, urlQuery = q\<rparr>"

definition startWorld :: "nat world" where
  "startWorld = \<lparr>trace = [], backend = 0\<rparr>"

section \<open>Resolution misses\<close>

lemma execute_resolved:
  assumes "ParseDuration dp (if Query req ''duration'' = [] then ''1h'' else Query req ''duration'')
             = Inr duration"
    and "getApp config (paramApplication req) = Some app"
    and "getDashBoard app (paramGroupkind req) = Some dashboard"
    and "getRow dashboard (paramRow req) = Some r"
  shows "execute dp config req w =
           (case getGraph r (paramGraph req) of
              None \<Rightarrow> (None, w)
            | Some g \<Rightarrow> executeGraph dp g (urlQuery req) duration w)"
  using assms by (simp add: execute_def Let_def)

lemma execute_graph_not_found:
  assumes "ParseDuration dp (if Query req ''duration'' = [] then ''1h'' else Query req ''duration'')
             = Inr duration"
    and "getApp config (paramApplication req) = Some app"
    and "getDashBoard app (paramGroupkind req) = Some dashboard"
    and "getRow dashboard (paramRow req) = Some r"
    and "getGraph r (paramGraph req) = None"
  shows "execute dp config req w = (None, w)"
  using assms by (simp add: execute_resolved)

text \<open>
  C1. A request whose application, dashboard and row resolve but whose graph name matches
  no graph of the row should end in a 400 response, as a miss at the row does. The handler
  has no branch for the missing graph: on the example configuration the request for the
  graph \<^verbatim>\<open>missing\<close> of the row \<^verbatim>\<open>cpu\<close> ends with no response written and the world
  untouched, while the request for the unknown row \<^verbatim>\<open>mem\<close> is answered with 400.
\<close>

theorem execute_missing_graph_writes_nothing:
  "execute goDeps exampleConfig (exampleRequest ''cpu'' ''missing'' Map.empty) startWorld
     = (None, startWorld)
   \<and> fst (execute goDeps exampleConfig (exampleRequest ''mem'' ''usage'' Map.empty) startWorld)
     = Some (400, JSONString ''Requested Row not found'')"
  by (simp add: execute_def goDeps_def exampleRequest_def Query_def goParseDuration_def
      unitMap_def isDigit_def getApp_def getDashBoard_def getRow_def getGraph_def
      exampleConfig_def usageGraph_def limitsGraph_def alertsGraph_def latencyGraph_def
      brokenGraph_def draftGraph_def StatusBadRequest_def)

section \<open>What the round tripper prints\<close>

lemma canonical_apikey: "CanonicalMIMEHeaderKey ''apikey'' = ''Apikey''"
  by code_simp

lemma appendValue_has_key: "\<exists>vs. (key, vs @ [v]) \<in> set (appendValue h key v)"
proof (induction h)
  case Nil
  have "(key, [] @ [v]) \<in> set (appendValue [] key v)" by simp
  then show ?case by blast
next
  case (Cons kv h)
  obtain k vs where kv: "kv = (k, vs)" by (cases kv)
  show ?case
  proof (cases "k = key")
    case True
    with kv have "(key, vs @ [v]) \<in> set (appendValue (kv # h) key v)" by simp
    then show ?thesis by blast
  next
    case False
    with kv Cons show ?thesis by auto
  qed
qed

lemma showHeaders_prints:
  "(k, vs) \<in> set h \<Longrightarrow> k \<noteq> ''apikey'' \<Longrightarrow> ''  '' @ k @ '': '' @ fmtStrings vs \<in> set (showHeaders h)"
  by (induction h) auto

lemma RoundTrip_prints_value:
  "\<exists>vs. ''  Apikey: '' @ fmtStrings (vs @ [apiKey]) \<in> set (fst (RoundTrip [(''apikey'', apiKey)] req))"
proof -
  obtain vs where "(''Apikey'', vs @ [apiKey]) \<in> set (appendValue (reqHeader req) ''Apikey'' apiKey)"
    using appendValue_has_key by blast
  then have "''  '' @ ''Apikey'' @ '': '' @ fmtStrings (vs @ [apiKey])
               \<in> set (showHeaders (appendValue (reqHeader req) ''Apikey'' apiKey))"
    by (rule showHeaders_prints) simp
  then have "''  Apikey: '' @ fmtStrings (vs @ [apiKey])
               \<in> set (fst (RoundTrip [(''apikey'', apiKey)] req))"
    by (simp add: RoundTrip_def HeaderAdd_def canonical_apikey)
  then show ?thesis by blast
qed

text \<open>
  C2. The value of the API key should never reach the output. The round tripper redacts
  the header named \<^verbatim>\<open>apikey\<close>, but the request stores it under its canonical name
  \<^verbatim>\<open>Apikey\<close>, which the second loop does not recognise: with the key \<^verbatim>\<open>s3cr3t\<close> read
  from the environment, the last line printed for a request shows the key.
\<close>

theorem RoundTrip_prints_apikey:
  "snd (initRoundTripper ''s3cr3t'') = Some [(''apikey'', ''s3cr3t'')]
   \<and> fst (RoundTrip [(''apikey'', ''s3cr3t'')]
            \<lparr>URL = ''http://prometheus:9090/api/v1/query_range'',
             reqHeader = [(''Content-Type'', [''application/x-www-form-urlencoded''])]\<rparr>)
     = [''Making request to: http://prometheus:9090/api/v1/query_range'',
        ''Added header: apikey: [REDACTED]'',
        ''All request headers:'',
        ''  Content-Type: [application/x-www-form-urlencoded]'',
        ''  Apikey: [s3cr3t]'']"
  by (simp add: initRoundTripper_def RoundTrip_def HeaderAdd_def canonical_apikey fmtStrings_def)

section \<open>Facts about the query and the threshold loop\<close>

lemma executeGraphQuery_render_error:
  "render dp q env = Inl msg \<Longrightarrow>
   executeGraphQuery dp q env d w = ((None, [], Some msg), w\<lparr>trace := trace w @ [TemplateParse q]\<rparr>)"
  by (auto simp: render_def executeGraphQuery_def Let_def split: sum.splits)

lemma executeGraphQuery_rendered:
  "render dp q env = Inr s \<Longrightarrow> QueryRange dp (backend w) s d = ((result, warnings, err), b) \<Longrightarrow>
   executeGraphQuery dp q env d w =
     ((case err of
         Some e \<Rightarrow> (None, warnings, Some (''error querying prometheus: '' @ e))
       | None \<Rightarrow>
           if warnings \<noteq> [] then (result, warnings, Some (''query warnings: '' @ fmtStrings warnings))
           else (result, [], None)),
      w\<lparr>trace := trace w @ [TemplateParse q, BackendQuery s d], backend := b\<rparr>)"
  by (auto simp: render_def executeGraphQuery_def Let_def split: sum.splits option.splits)

lemma executeGraphQuery_trace:
  "trace (snd (executeGraphQuery dp q env d w)) =
     trace w @ TemplateParse q # (case render dp q env of Inl e \<Rightarrow> [] | Inr s \<Rightarrow> [BackendQuery s d])"
  by (auto simp: render_def executeGraphQuery_def Let_def split: sum.splits option.splits prod.splits)

lemma executeGraphQuery_no_error:
  "executeGraphQuery dp q env d w = ((result, warnings, None), w') \<Longrightarrow> warnings = []"
  by (auto simp: executeGraphQuery_def Let_def split: sum.splits option.splits prod.splits if_splits)

lemma thresholdStep_trace:
  "trace (snd (thresholdStep dp env d th w)) =
     trace w @ TemplateParse (if thValue th \<noteq> [] then thValue th else thQueryExpression th) #
       (case render dp (if thValue th \<noteq> [] then thValue th else thQueryExpression th) env of
          Inl e \<Rightarrow> [] | Inr s \<Rightarrow> [BackendQuery s d])"
proof -
  let ?c = "if thValue th \<noteq> [] then thValue th else thQueryExpression th"
  have "snd (thresholdStep dp env d th w) = snd (executeGraphQuery dp ?c env d w)"
    by (auto simp: thresholdStep_def split: prod.splits option.splits sum.splits)
  then show ?thesis by (simp only: executeGraphQuery_trace)
qed

lemma thresholdStep_Inr:
  assumes "thresholdStep dp env d th w = (Inr r, w')"
  shows "\<exists>result. executeGraphQuery dp (if thValue th \<noteq> [] then thValue th else thQueryExpression th)
                     env d w = ((result, [], None), w')
          \<and> jsonMarshal dp result = Inr (trData r)
          \<and> trKey r = thKey th \<and> trName r = thName th \<and> trColor r = thColor th
          \<and> trValue r = thValue th \<and> trUnit r = thUnit th"
  using assms
  by (auto simp: thresholdStep_def split: prod.splits option.splits sum.splits if_splits)

lemma thresholdStep_Inl:
  assumes "thresholdStep dp env d th w = (Inl r, w')"
  shows "fst r = StatusBadRequest \<and> (\<exists>m. snd r = JSONError m \<or> snd r = JSONString m)"
  using assms
  by (auto simp: thresholdStep_def split: prod.splits option.splits sum.splits if_splits)

lemma thresholdStep_error:
  assumes "fst (executeGraphQuery dp (if thValue th \<noteq> [] then thValue th else thQueryExpression th)
                 env d w) = (result, warnings, Some e)"
  shows "fst (thresholdStep dp env d th w) = Inl (StatusBadRequest, JSONError e)"
  using assms
  by (auto simp: thresholdStep_def split: prod.splits option.splits sum.splits if_splits)

lemma thresholdStep_fails_iff:
  "(\<exists>r. fst (thresholdStep dp env d th w) = Inl r) \<longleftrightarrow>
     (case fst (executeGraphQuery dp
                 (if thValue th \<noteq> [] then thValue th else thQueryExpression th) env d w) of
        (result, warnings, Some e) \<Rightarrow> True
      | (result, warnings, None) \<Rightarrow> warnings \<noteq> [] \<or> (\<exists>e. jsonMarshal dp result = Inl e))"
  by (auto simp: thresholdStep_def split: prod.splits option.splits sum.splits)

lemma thresholdLoop_append:
  "thresholdLoop dp env d (xs @ ys) acc w =
     (case thresholdLoop dp env d xs acc w of
        (Inl r, w') \<Rightarrow> (Inl r, w')
      | (Inr acc', w') \<Rightarrow> thresholdLoop dp env d ys acc' w')"
  by (induction xs arbitrary: acc w) (auto split: prod.splits sum.splits)

lemma thresholdLoop_Inr:
  "thresholdLoop dp env d ths acc w = (Inr rs, w') \<Longrightarrow>
   \<exists>new. rs = acc @ new \<and>
     list_all2 (\<lambda>th r. \<exists>w0 w1. thresholdStep dp env d th w0 = (Inr r, w1)) ths new"
proof (induction ths arbitrary: acc w)
  case Nil
  then show ?case by simp
next
  case (Cons th ths)
  from Cons.prems obtain temp w1 where
    step: "thresholdStep dp env d th w = (Inr temp, w1)" and
    rest: "thresholdLoop dp env d ths (acc @ [temp]) w1 = (Inr rs, w')"
    by (auto split: prod.splits sum.splits)
  from Cons.IH [OF rest] obtain new where
    new: "rs = (acc @ [temp]) @ new"
      "list_all2 (\<lambda>th r. \<exists>w0 w1. thresholdStep dp env d th w0 = (Inr r, w1)) ths new"
    by blast
  have "rs = acc @ (temp # new)" using new(1) by simp
  moreover have "list_all2 (\<lambda>th r. \<exists>w0 w1. thresholdStep dp env d th w0 = (Inr r, w1))
                   (th # ths) (temp # new)"
    using step new(2) by auto
  ultimately show ?case by blast
qed

lemma thresholdLoop_Inl:
  "thresholdLoop dp env d ths acc w = (Inl r, w') \<Longrightarrow>
   fst r = StatusBadRequest \<and> (\<exists>m. snd r = JSONError m \<or> snd r = JSONString m)"
proof (induction ths arbitrary: acc w)
  case Nil
  then show ?case by simp
next
  case (Cons th ths)
  show ?case
  proof (cases "thresholdStep dp env d th w")
    case (Pair res w1)
    show ?thesis
    proof (cases res)
      case (Inl r1)
      with Pair Cons.prems have "r1 = r" by simp
      with Pair Inl thresholdStep_Inl show ?thesis by blast
    next
      case (Inr temp)
      with Pair Cons.prems have "thresholdLoop dp env d ths (acc @ [temp]) w1 = (Inl r, w')"
        by simp
      then show ?thesis by (rule Cons.IH)
    qed
  qed
qed

lemma backendQueries_append:
  "backendQueries (xs @ ys) = backendQueries xs @ backendQueries ys"
  by (induction xs rule: backendQueries.induct) auto





lemma thresholdStep_render_error:
  assumes "render dp (if thValue th \<noteq> [] then thValue th else thQueryExpression th) env = Inl msg"
  shows "thresholdStep dp env d th w =
           (Inl (StatusBadRequest, JSONError msg),
            w\<lparr>trace := trace w @
               [TemplateParse (if thValue th \<noteq> [] then thValue th else thQueryExpression th)]\<rparr>)"
  using executeGraphQuery_render_error [OF assms, of d w]
  by (cases "thValue th = []") (simp_all add: thresholdStep_def)

lemma thresholdStep_rendered:
  assumes "render dp (if thValue th \<noteq> [] then thValue th else thQueryExpression th) env = Inr s"
    and "QueryRange dp (backend w) s d = ((result, warnings, err), b)"
  shows "thresholdStep dp env d th w =
           ((case err of
               Some e \<Rightarrow> Inl (StatusBadRequest, JSONError (''error querying prometheus: '' @ e))
             | None \<Rightarrow>
                 if warnings \<noteq> []
                 then Inl (StatusBadRequest, JSONError (''query warnings: '' @ fmtStrings warnings))
                 else (case jsonMarshal dp result of
                         Inl e \<Rightarrow>
                           Inl (StatusBadRequest,
                                JSONError (''error marshaling the threshold response: '' @ e))
                       | Inr raw \<Rightarrow>
                           Inr \<lparr>trData = raw, trKey = thKey th, trName = thName th,
                                 trColor = thColor th, trValue = thValue th,
                                 trUnit = thUnit th\<rparr>)),
            w\<lparr>trace := trace w @
                 [TemplateParse (if thValue th \<noteq> [] then thValue th else thQueryExpression th),
                  BackendQuery s d],
               backend := b\<rparr>)"
  using executeGraphQuery_rendered [OF assms]
  by (cases "thValue th = []") (auto simp: thresholdStep_def split: option.splits sum.splits)

lemma executeGraph_thresholds:
  assumes "executeGraphQuery dp (grQueryExpression g) env d w = ((result, [], None), w1)"
    and "jsonMarshal dp result = Inr raw"
  shows "executeGraph dp g env d w =
           (case thresholdLoop dp env d (grThresholds g) [] w1 of
              (Inl r, w2) \<Rightarrow> (Some r, w2)
            | (Inr finalResultArr, w2) \<Rightarrow>
                (Some (StatusOK, JSONData \<lparr>arData = raw, arThresholds = finalResultArr\<rparr>), w2))"
  using assms by (simp add: executeGraph_def)

lemma execute_threshold_fails:
  assumes "ParseDuration dp (if Query req ''duration'' = [] then ''1h'' else Query req ''duration'')
             = Inr d"
    and "urlQuery req = env"
    and "getApp config (paramApplication req) = Some app"
    and "getDashBoard app (paramGroupkind req) = Some dashboard"
    and "getRow dashboard (paramRow req) = Some r"
    and "getGraph r (paramGraph req) = Some gr"
    and "executeGraphQuery dp (grQueryExpression gr) env d w0 = ((result0, [], None), w1)"
    and "jsonMarshal dp result0 = Inr raw"
    and "grThresholds gr = pre @ th # rest"
    and "thresholdLoop dp env d pre [] w1 = (Inr acc, w)"
    and "thresholdStep dp env d th w = (Inl resp, w')"
  shows "execute dp config req w0 = (Some resp, w')"
proof -
  have "thresholdLoop dp env d (grThresholds gr) [] w1 = (Inl resp, w')"
    using assms(9,10,11) by (simp add: thresholdLoop_append)
  then have "executeGraph dp gr env d w0 = (Some resp, w')"
    using executeGraph_thresholds [OF assms(7,8)] by simp
  then show ?thesis
    using execute_resolved [OF assms(1,3,4,5), of w0] assms(2,6) by simp
qed

lemma goDeps_renders_parsed:
  "tmplParse goDeps q = Inr nodes \<Longrightarrow>
   render goDeps q env = Inr (concat (map (printNode (env1 env)) nodes))"
  by (simp add: render_def goDeps_def goExecute_def)

text \<open>Unfolding rules for running the handler on the instance.\<close>

lemmas go_eval =
  goDeps_def goParseDuration_def unitMap_def isDigit_def isAlphaNumeric_def fieldOf_def
  trimSpace_def textNode_def goExecute_def htmlEscape_def htmlReplacement_def quote_def
  quoteByte_def lowerhex_def
  scriptedMarshal_def scriptedQueryRange_def env1_def render_def

lemmas example_eval =
  exampleConfig_def usageGraph_def limitsGraph_def alertsGraph_def latencyGraph_def
  brokenGraph_def draftGraph_def exampleRequest_def
  startWorld_def
  getApp_def getDashBoard_def getRow_def getGraph_def Query_def

lemmas handler_eval =
  execute_def executeGraph_def thresholdStep_def executeGraphQuery_def fmtStrings_def
  StatusOK_def StatusBadRequest_def Let_def

section \<open>Errors before the backend\<close>

text \<open>
  C5. When the engine rejects a template, at parsing or at execution, \<^verbatim>\<open>executeGraphQuery\<close>
  returns the error at once: the trace gains the parse and no range query, and the backend
  is left as it was. The request then ends with 400 and the error, whether the template is
  the graph's own query or that of a threshold reached after any number of thresholds that
  succeeded. On the instance of the engine, a template that parses always renders: a
  reference to a parameter the request lacks is no error.
\<close>

theorem template_error_before_backend:
  assumes "(tmplParse dp q = Inl e \<and> msg = ''error parsing query template: '' @ e)
           \<or> (\<exists>t. tmplParse dp q = Inr t \<and> tmplExecute dp t (env1 env) = Inl e
                   \<and> msg = ''error executing template: '' @ e)"
  shows "executeGraphQuery dp q env d w =
           ((None, [], Some msg), w\<lparr>trace := trace w @ [TemplateParse q]\<rparr>)
         \<and> backendQueries (trace (snd (executeGraphQuery dp q env d w))) = backendQueries (trace w)
         \<and> backend (snd (executeGraphQuery dp q env d w)) = backend w
         \<and> executeGraph dp (g\<lparr>grQueryExpression := q\<rparr>) env d w =
             (Some (StatusBadRequest, JSONError msg), w\<lparr>trace := trace w @ [TemplateParse q]\<rparr>)
         \<and> thresholdStep dp env d (th\<lparr>thValue := [], thQueryExpression := q\<rparr>) w =
             (Inl (StatusBadRequest, JSONError msg), w\<lparr>trace := trace w @ [TemplateParse q]\<rparr>)
         \<and> (\<forall>config req app dashboard r gr.
               ParseDuration dp (if Query req ''duration'' = [] then ''1h'' else Query req ''duration'')
                 = Inr d
               \<and> urlQuery req = env
               \<and> getApp config (paramApplication req) = Some app
               \<and> getDashBoard app (paramGroupkind req) = Some dashboard
               \<and> getRow dashboard (paramRow req) = Some r
               \<and> getGraph r (paramGraph req) = Some gr
               \<longrightarrow>
               (grQueryExpression gr = q \<longrightarrow>
                  execute dp config req w =
                    (Some (StatusBadRequest, JSONError msg),
                     w\<lparr>trace := trace w @ [TemplateParse q]\<rparr>))
               \<and> (\<forall>w0 w1 result0 raw pre t rest acc.
                     executeGraphQuery dp (grQueryExpression gr) env d w0 = ((result0, [], None), w1)
                     \<and> jsonMarshal dp result0 = Inr raw
                     \<and> grThresholds gr = pre @ t # rest
                     \<and> (if thValue t \<noteq> [] then thValue t else thQueryExpression t) = q
                     \<and> thresholdLoop dp env d pre [] w1 = (Inr acc, w)
                     \<longrightarrow>
                     execute dp config req w0 =
                       (Some (StatusBadRequest, JSONError msg),
                        w\<lparr>trace := trace w @ [TemplateParse q]\<rparr>)))
         \<and> (\<forall>q' nodes env'. tmplParse goDeps q' = Inr nodes \<longrightarrow>
               (\<exists>s. render goDeps q' env' = Inr s))"
proof -
  let ?w' = "w\<lparr>trace := trace w @ [TemplateParse q]\<rparr>"
  from assms have r: "render dp q env = Inl msg"
    by (auto simp: render_def)
  then have q: "executeGraphQuery dp q env d w = ((None, [], Some msg), ?w')"
    by (rule executeGraphQuery_render_error)
  then have local: "executeGraphQuery dp q env d w = ((None, [], Some msg), ?w')
         \<and> backendQueries (trace (snd (executeGraphQuery dp q env d w))) = backendQueries (trace w)
         \<and> backend (snd (executeGraphQuery dp q env d w)) = backend w
         \<and> executeGraph dp (g\<lparr>grQueryExpression := q\<rparr>) env d w =
             (Some (StatusBadRequest, JSONError msg), ?w')
         \<and> thresholdStep dp env d (th\<lparr>thValue := [], thQueryExpression := q\<rparr>) w =
             (Inl (StatusBadRequest, JSONError msg), ?w')"
    by (simp add: executeGraph_def thresholdStep_def backendQueries_append)
  have step: "thresholdStep dp env d t w = (Inl (StatusBadRequest, JSONError msg), ?w')"
    if "(if thValue t \<noteq> [] then thValue t else thQueryExpression t) = q" for t
    using thresholdStep_render_error [of dp t env msg d w] that r by simp
  have req: "\<forall>config req app dashboard r gr.
               ParseDuration dp (if Query req ''duration'' = [] then ''1h'' else Query req ''duration'')
                 = Inr d
               \<and> urlQuery req = env
               \<and> getApp config (paramApplication req) = Some app
               \<and> getDashBoard app (paramGroupkind req) = Some dashboard
               \<and> getRow dashboard (paramRow req) = Some r
               \<and> getGraph r (paramGraph req) = Some gr
               \<longrightarrow>
               (grQueryExpression gr = q \<longrightarrow>
                  execute dp config req w = (Some (StatusBadRequest, JSONError msg), ?w'))
               \<and> (\<forall>w0 w1 result0 raw pre t rest acc.
                     executeGraphQuery dp (grQueryExpression gr) env d w0 = ((result0, [], None), w1)
                     \<and> jsonMarshal dp result0 = Inr raw
                     \<and> grThresholds gr = pre @ t # rest
                     \<and> (if thValue t \<noteq> [] then thValue t else thQueryExpression t) = q
                     \<and> thresholdLoop dp env d pre [] w1 = (Inr acc, w)
                     \<longrightarrow>
                     execute dp config req w0 = (Some (StatusBadRequest, JSONError msg), ?w'))"
  proof (intro allI impI, elim conjE, intro conjI impI allI)
    fix config req app dashboard r gr
    assume res: "ParseDuration dp (if Query req ''duration'' = [] then ''1h'' else Query req ''duration'')
                 = Inr d"
      "urlQuery req = env"
      "getApp config (paramApplication req) = Some app"
      "getDashBoard app (paramGroupkind req) = Some dashboard"
      "getRow dashboard (paramRow req) = Some r"
      "getGraph r (paramGraph req) = Some gr"
    {
      assume "grQueryExpression gr = q"
      then have "executeGraph dp gr env d w = (Some (StatusBadRequest, JSONError msg), ?w')"
        using q by (simp add: executeGraph_def)
      then show "execute dp config req w = (Some (StatusBadRequest, JSONError msg), ?w')"
        using execute_resolved [OF res(1,3,4,5), of w] res(2,6) by simp
    next
      fix w0 w1 result0 raw pre t rest acc
      assume a: "executeGraphQuery dp (grQueryExpression gr) env d w0 = ((result0, [], None), w1)
                     \<and> jsonMarshal dp result0 = Inr raw
                     \<and> grThresholds gr = pre @ t # rest
                     \<and> (if thValue t \<noteq> [] then thValue t else thQueryExpression t) = q
                     \<and> thresholdLoop dp env d pre [] w1 = (Inr acc, w)"
      then have "thresholdStep dp env d t w = (Inl (StatusBadRequest, JSONError msg), ?w')"
        using step by blast
      with a show "execute dp config req w0 = (Some (StatusBadRequest, JSONError msg), ?w')"
        using execute_threshold_fails [OF res] by blast
    }
  qed
  have inst: "\<forall>q' nodes env'. tmplParse goDeps q' = Inr nodes \<longrightarrow>
               (\<exists>s. render goDeps q' env' = Inr s)"
    by (simp add: goDeps_renders_parsed)
  from local req inst show ?thesis by (intro conjI) blast+
qed

theorem template_error_before_backend_witness:
  "tmplParse goDeps ''rate(cpu{{'' = Inl ''template: query:1: unclosed action''
   \<and> execute goDeps exampleConfig (exampleRequest ''cpu'' ''broken'' Map.empty) startWorld =
       (Some (400, JSONError ''error parsing query template: template: query:1: unclosed action''),
        \<lparr>trace = [TemplateParse ''rate(cpu{{''], backend = 0\<rparr>)
   \<and> tmplParse goDeps ''{{.limit'' = Inl ''template: query:1: unclosed action''
   \<and> execute goDeps exampleConfig (exampleRequest ''cpu'' ''draft'' Map.empty) startWorld =
       (Some (400, JSONError ''error parsing query template: template: query:1: unclosed action''),
        \<lparr>trace = [TemplateParse ''up'', BackendQuery ''up'' Hour,
                  TemplateParse ''80'', BackendQuery ''80'' Hour,
                  TemplateParse ''{{.limit''], backend = 2\<rparr>)"
proof -
  let ?w2 = "\<lparr>trace = [TemplateParse ''up'', BackendQuery ''up'' Hour,
                       TemplateParse ''80'', BackendQuery ''80'' Hour], backend = 2::nat\<rparr>"
  have p1: "tmplParse goDeps ''rate(cpu{{'' = Inl ''template: query:1: unclosed action''"
    by (simp add: goDeps_def)
  have p2: "tmplParse goDeps ''{{.limit'' = Inl ''template: query:1: unclosed action''"
    by (simp add: goDeps_def)
  have run1: "execute goDeps exampleConfig (exampleRequest ''cpu'' ''broken'' Map.empty) startWorld =
       (Some (400, JSONError ''error parsing query template: template: query:1: unclosed action''),
        \<lparr>trace = [TemplateParse ''rate(cpu{{''], backend = 0\<rparr>)"
    by (simp add: go_eval handler_eval example_eval Hour_def)
  have run2: "execute goDeps exampleConfig (exampleRequest ''cpu'' ''draft'' Map.empty) startWorld =
       (Some (400, JSONError ''error parsing query template: template: query:1: unclosed action''),
        \<lparr>trace = [TemplateParse ''up'', BackendQuery ''up'' Hour,
                  TemplateParse ''80'', BackendQuery ''80'' Hour,
                  TemplateParse ''{{.limit''], backend = 2\<rparr>)"
    by (simp add: go_eval handler_eval example_eval Hour_def)
  show ?thesis
    using p1 p2 run1 run2
      template_error_before_backend
        [of goDeps "''rate(cpu{{''" "''template: query:1: unclosed action''"
            "''error parsing query template: template: query:1: unclosed action''"
            Map.empty Hour startWorld brokenGraph "hd (grThresholds draftGraph)"]
      template_error_before_backend
        [of goDeps "''{{.limit''" "''template: query:1: unclosed action''"
            "''error parsing query template: template: query:1: unclosed action''"
            Map.empty Hour ?w2 draftGraph "hd (grThresholds draftGraph)"]
    by simp
qed

text \<open>
  A reference that cannot be resolved does not make rendering fail. The template of the
  graph \<^verbatim>\<open>usage\<close> prints the parameter \<^verbatim>\<open>namespace\<close>; for a request without it the
  template renders with an empty value, the query is sent and the request is answered
  with 200.
\<close>

theorem missing_parameter_is_sent:
  "render goDeps ''sum(rate(cpu{ns={{.namespace}}}[5m]))'' Map.empty =
     Inr ''sum(rate(cpu{ns=}[5m]))''
   \<and> execute goDeps exampleConfig (exampleRequest ''cpu'' ''usage'' Map.empty) startWorld =
       (Some (200, JSONData
          \<lparr>arData = ''[[1,0.8]]'',
           arThresholds =
             [\<lparr>trData = ''[[1,0.8]]'', trKey = ''warn'', trName = ''warning'',
               trColor = ''yellow'', trValue = ''80'', trUnit = ''%''\<rparr>,
              \<lparr>trData = ''[[1,0.8]]'', trKey = ''crit'', trName = ''critical'',
               trColor = ''red'', trValue = [], trUnit = ''%''\<rparr>]\<rparr>),
        \<lparr>trace = [TemplateParse ''sum(rate(cpu{ns={{.namespace}}}[5m]))'',
                  BackendQuery ''sum(rate(cpu{ns=}[5m]))'' Hour,
                  TemplateParse ''80'', BackendQuery ''80'' Hour,
                  TemplateParse ''max(cpu)'', BackendQuery ''max(cpu)'' Hour], backend = 3\<rparr>)"
  by (simp add: go_eval handler_eval example_eval Hour_def)



section \<open>Thresholds\<close>

text \<open>
  C4. A threshold with a non-empty value is evaluated from the value alone. Its step is
  the same whatever the query expression is; the only template handed to the engine is the
  value; when the value does not render the step fails with that error and no query; and
  when it renders, the rendering is the range query sent, the backend moves to the state
  that query leaves, and the step's outcome is decided by the answer to that query: the
  error, the warnings, or the marshaled result with the threshold's fields. With an empty
  value the query expression takes that place.
\<close>

theorem threshold_value_precedence:
  "(thValue th \<noteq> [] \<longrightarrow>
      thresholdStep dp env d th w = thresholdStep dp env d (th\<lparr>thQueryExpression := other\<rparr>) w
      \<and> trace (snd (thresholdStep dp env d th w)) =
          trace w @ TemplateParse (thValue th) #
            (case render dp (thValue th) env of Inl e \<Rightarrow> [] | Inr s \<Rightarrow> [BackendQuery s d])
      \<and> (\<forall>msg. render dp (thValue th) env = Inl msg \<longrightarrow>
            thresholdStep dp env d th w =
              (Inl (StatusBadRequest, JSONError msg),
               w\<lparr>trace := trace w @ [TemplateParse (thValue th)]\<rparr>))
      \<and> (\<forall>s result warnings err b.
            render dp (thValue th) env = Inr s
            \<and> QueryRange dp (backend w) s d = ((result, warnings, err), b) \<longrightarrow>
            thresholdStep dp env d th w =
              ((case err of
                  Some e \<Rightarrow> Inl (StatusBadRequest, JSONError (''error querying prometheus: '' @ e))
                | None \<Rightarrow>
                    if warnings \<noteq> []
                    then Inl (StatusBadRequest,
                              JSONError (''query warnings: '' @ fmtStrings warnings))
                    else (case jsonMarshal dp result of
                            Inl e \<Rightarrow>
                              Inl (StatusBadRequest,
                                   JSONError (''error marshaling the threshold response: '' @ e))
                          | Inr raw \<Rightarrow>
                              Inr \<lparr>trData = raw, trKey = thKey th, trName = thName th,
                                    trColor = thColor th, trValue = thValue th,
                                    trUnit = thUnit th\<rparr>)),
               w\<lparr>trace := trace w @ [TemplateParse (thValue th), BackendQuery s d],
                  backend := b\<rparr>)))
   \<and> (thValue th = [] \<longrightarrow>
      trace (snd (thresholdStep dp env d th w)) =
          trace w @ TemplateParse (thQueryExpression th) #
            (case render dp (thQueryExpression th) env of Inl e \<Rightarrow> [] | Inr s \<Rightarrow> [BackendQuery s d])
      \<and> (\<forall>msg. render dp (thQueryExpression th) env = Inl msg \<longrightarrow>
            thresholdStep dp env d th w =
              (Inl (StatusBadRequest, JSONError msg),
               w\<lparr>trace := trace w @ [TemplateParse (thQueryExpression th)]\<rparr>))
      \<and> (\<forall>s result warnings err b.
            render dp (thQueryExpression th) env = Inr s
            \<and> QueryRange dp (backend w) s d = ((result, warnings, err), b) \<longrightarrow>
            thresholdStep dp env d th w =
              ((case err of
                  Some e \<Rightarrow> Inl (StatusBadRequest, JSONError (''error querying prometheus: '' @ e))
                | None \<Rightarrow>
                    if warnings \<noteq> []
                    then Inl (StatusBadRequest,
                              JSONError (''query warnings: '' @ fmtStrings warnings))
                    else (case jsonMarshal dp result of
                            Inl e \<Rightarrow>
                              Inl (StatusBadRequest,
                                   JSONError (''error marshaling the threshold response: '' @ e))
                          | Inr raw \<Rightarrow>
                              Inr \<lparr>trData = raw, trKey = thKey th, trName = thName th,
                                    trColor = thColor th, trValue = thValue th,
                                    trUnit = thUnit th\<rparr>)),
               w\<lparr>trace := trace w @ [TemplateParse (thQueryExpression th), BackendQuery s d],
                  backend := b\<rparr>)))"
proof (intro conjI impI allI)
  assume "thValue th \<noteq> []"
  then show "thresholdStep dp env d th w = thresholdStep dp env d (th\<lparr>thQueryExpression := other\<rparr>) w"
    by (auto simp: thresholdStep_def split: prod.splits option.splits sum.splits)
next
  assume "thValue th \<noteq> []"
  then show "trace (snd (thresholdStep dp env d th w)) =
          trace w @ TemplateParse (thValue th) #
            (case render dp (thValue th) env of Inl e \<Rightarrow> [] | Inr s \<Rightarrow> [BackendQuery s d])"
    using thresholdStep_trace [of dp env d th w] by simp
next
  fix msg
  assume "thValue th \<noteq> []" and "render dp (thValue th) env = Inl msg"
  then show "thresholdStep dp env d th w =
              (Inl (StatusBadRequest, JSONError msg),
               w\<lparr>trace := trace w @ [TemplateParse (thValue th)]\<rparr>)"
    using thresholdStep_render_error [of dp th env msg d w] by simp
next
  fix s result warnings err b
  assume "thValue th \<noteq> []"
    and "render dp (thValue th) env = Inr s
         \<and> QueryRange dp (backend w) s d = ((result, warnings, err), b)"
  then show "thresholdStep dp env d th w =
              ((case err of
                  Some e \<Rightarrow> Inl (StatusBadRequest, JSONError (''error querying prometheus: '' @ e))
                | None \<Rightarrow>
                    if warnings \<noteq> []
                    then Inl (StatusBadRequest,
                              JSONError (''query warnings: '' @ fmtStrings warnings))
                    else (case jsonMarshal dp result of
                            Inl e \<Rightarrow>
                              Inl (StatusBadRequest,
                                   JSONError (''error marshaling the threshold response: '' @ e))
                          | Inr raw \<Rightarrow>
                              Inr \<lparr>trData = raw, trKey = thKey th, trName = thName th,
                                    trColor = thColor th, trValue = thValue th,
                                    trUnit = thUnit th\<rparr>)),
               w\<lparr>trace := trace w @ [TemplateParse (thValue th), BackendQuery s d],
                  backend := b\<rparr>)"
    using thresholdStep_rendered [of dp th env s w d result warnings err b] by simp
next
  assume "thValue th = []"
  then show "trace (snd (thresholdStep dp env d th w)) =
          trace w @ TemplateParse (thQueryExpression th) #
            (case render dp (thQueryExpression th) env of Inl e \<Rightarrow> [] | Inr s \<Rightarrow> [BackendQuery s d])"
    using thresholdStep_trace [of dp env d th w] by simp
next
  fix msg
  assume "thValue th = []" and "render dp (thQueryExpression th) env = Inl msg"
  then show "thresholdStep dp env d th w =
              (Inl (StatusBadRequest, JSONError msg),
               w\<lparr>trace := trace w @ [TemplateParse (thQueryExpression th)]\<rparr>)"
    using thresholdStep_render_error [of dp th env msg d w] by simp
next
  fix s result warnings err b
  assume "thValue th = []"
    and "render dp (thQueryExpression th) env = Inr s
         \<and> QueryRange dp (backend w) s d = ((result, warnings, err), b)"
  then show "thresholdStep dp env d th w =
              ((case err of
                  Some e \<Rightarrow> Inl (StatusBadRequest, JSONError (''error querying prometheus: '' @ e))
                | None \<Rightarrow>
                    if warnings \<noteq> []
                    then Inl (StatusBadRequest,
                              JSONError (''query warnings: '' @ fmtStrings warnings))
                    else (case jsonMarshal dp result of
                            Inl e \<Rightarrow>
                              Inl (StatusBadRequest,
                                   JSONError (''error marshaling the threshold response: '' @ e))
                          | Inr raw \<Rightarrow>
                              Inr \<lparr>trData = raw, trKey = thKey th, trName = thName th,
                                    trColor = thColor th, trValue = thValue th,
                                    trUnit = thUnit th\<rparr>)),
               w\<lparr>trace := trace w @ [TemplateParse (thQueryExpression th), BackendQuery s d],
                  backend := b\<rparr>)"
    using thresholdStep_rendered [of dp th env s w d result warnings err b] by simp
qed

theorem threshold_value_precedence_witness:
  "thValue \<lparr>thKey = ''k'', thName = ''n'', thColor = ''red'', thValue = ''5'', thUnit = ''%'',
             thQueryExpression = ''up''\<rparr> \<noteq> []
   \<and> render goDeps ''5'' Map.empty = Inr ''5''
   \<and> QueryRange goDeps (backend startWorld) ''5'' Hour = ((Some ''[[1,0.8]]'', [], None), 1)
   \<and> thresholdStep goDeps Map.empty Hour
        \<lparr>thKey = ''k'', thName = ''n'', thColor = ''red'', thValue = ''5'', thUnit = ''%'',
          thQueryExpression = ''up''\<rparr> startWorld =
       (Inr \<lparr>trData = ''[[1,0.8]]'', trKey = ''k'', trName = ''n'', trColor = ''red'',
             trValue = ''5'', trUnit = ''%''\<rparr>,
        \<lparr>trace = [TemplateParse ''5'', BackendQuery ''5'' Hour], backend = 1\<rparr>)
   \<and> thValue \<lparr>thKey = ''k'', thName = ''n'', thColor = ''red'', thValue = [], thUnit = ''%'',
             thQueryExpression = ''up''\<rparr> = []
   \<and> thresholdStep goDeps Map.empty Hour
        \<lparr>thKey = ''k'', thName = ''n'', thColor = ''red'', thValue = [], thUnit = ''%'',
          thQueryExpression = ''up''\<rparr> startWorld =
       (Inr \<lparr>trData = ''[[1,0.8]]'', trKey = ''k'', trName = ''n'', trColor = ''red'',
             trValue = [], trUnit = ''%''\<rparr>,
        \<lparr>trace = [TemplateParse ''up'', BackendQuery ''up'' Hour], backend = 1\<rparr>)"
proof -
  have r5: "render goDeps ''5'' Map.empty = Inr ''5''"
    by (simp add: go_eval)
  have q5: "QueryRange goDeps (backend startWorld) ''5'' Hour = ((Some ''[[1,0.8]]'', [], None), 1)"
    by (simp add: go_eval startWorld_def)
  have rup: "render goDeps ''up'' Map.empty = Inr ''up''"
    by (simp add: go_eval)
  have qup: "QueryRange goDeps (backend startWorld) ''up'' Hour = ((Some ''[[1,0.8]]'', [], None), 1)"
    by (simp add: go_eval startWorld_def)
  show ?thesis
    using r5 q5 rup qup
      threshold_value_precedence [of
          "\<lparr>thKey = ''k'', thName = ''n'', thColor = ''red'', thValue = ''5'', thUnit = ''%'',
             thQueryExpression = ''up''\<rparr>" goDeps Map.empty Hour startWorld "[]"]
      threshold_value_precedence [of
          "\<lparr>thKey = ''k'', thName = ''n'', thColor = ''red'', thValue = [], thUnit = ''%'',
             thQueryExpression = ''up''\<rparr>" goDeps Map.empty Hour startWorld "[]"]
    by (simp add: go_eval handler_eval startWorld_def)
qed

section \<open>Rendering\<close>

lemma Join_Cons: "Join (v # us) sep = v @ concat (map (\<lambda>u. sep @ u) us)"
  by (induction us arbitrary: v) auto

lemma append_singleton: "(@) [c] = (#) c"
  by (rule ext) simp

text \<open>
  C7. Every parameter reaches the template as its values joined by commas, in order; the
  template is executed on that flattened map; and the expression sent to the backend is
  the rendering of the template on the parameters, whatever the duration, the history and
  the backend's state.
\<close>

theorem render_flattens_parameters:
  "env1 env k =
     map_option (\<lambda>vs. case vs of [] \<Rightarrow> [] | v # us \<Rightarrow> v @ concat (map (\<lambda>u. '','' @ u) us)) (env k)
   \<and> (tmplParse dp q = Inr t \<longrightarrow>
        render dp q env =
          (case tmplExecute dp t (env1 env) of
             Inl e \<Rightarrow> Inl (''error executing template: '' @ e) | Inr s \<Rightarrow> Inr s))
   \<and> map fst (backendQueries (drop (length (trace w))
                 (trace (snd (executeGraphQuery dp q env d w))))) =
       (case render dp q env of Inl e \<Rightarrow> [] | Inr s \<Rightarrow> [s])"
proof (intro conjI impI)
  show "env1 env k =
     map_option (\<lambda>vs. case vs of [] \<Rightarrow> [] | v # us \<Rightarrow> v @ concat (map (\<lambda>u. '','' @ u) us)) (env k)"
    by (cases "env k") (auto simp: env1_def Join_Cons append_singleton split: list.splits)
next
  assume "tmplParse dp q = Inr t"
  then show "render dp q env =
          (case tmplExecute dp t (env1 env) of
             Inl e \<Rightarrow> Inl (''error executing template: '' @ e) | Inr s \<Rightarrow> Inr s)"
    by (simp add: render_def)
next
  show "map fst (backendQueries (drop (length (trace w))
                 (trace (snd (executeGraphQuery dp q env d w))))) =
       (case render dp q env of Inl e \<Rightarrow> [] | Inr s \<Rightarrow> [s])"
    by (simp add: executeGraphQuery_trace split: sum.splits)
qed

theorem render_flattens_parameters_witness:
  "env1 [''ns'' \<mapsto> [''a'', ''b'']] ''ns'' = Some ''a,b''
   \<and> tmplParse goDeps ''cpu{ns=~{{.ns}}}'' = Inr [TextNode ''cpu{ns=~'', FieldNode ''ns'', TextNode ''}'']
   \<and> render goDeps ''cpu{ns=~{{.ns}}}'' [''ns'' \<mapsto> [''a'', ''b'']] = Inr ''cpu{ns=~a,b}''
   \<and> backendQueries (trace (snd (executeGraphQuery goDeps ''cpu{ns=~{{.ns}}}''
         [''ns'' \<mapsto> [''a'', ''b'']] Hour startWorld))) = [(''cpu{ns=~a,b}'', Hour)]"
proof -
  have p: "tmplParse goDeps ''cpu{ns=~{{.ns}}}'' =
             Inr [TextNode ''cpu{ns=~'', FieldNode ''ns'', TextNode ''}'']"
    by (simp add: go_eval)
  have r: "render goDeps ''cpu{ns=~{{.ns}}}'' [''ns'' \<mapsto> [''a'', ''b'']] = Inr ''cpu{ns=~a,b}''"
    by (simp add: go_eval)
  show ?thesis
    using p r render_flattens_parameters
      [of "[''ns'' \<mapsto> [''a'', ''b'']]" "''ns''" goDeps "''cpu{ns=~{{.ns}}}''"
          "[TextNode ''cpu{ns=~'', FieldNode ''ns'', TextNode ''}'']" startWorld Hour]
    by (simp add: executeGraphQuery_trace startWorld_def)
qed

section \<open>Warnings\<close>

text \<open>
  C3. A query whose backend response carries warnings and no error is a failed query,
  whatever data comes with the warnings: \<^verbatim>\<open>executeGraphQuery\<close> returns an error made of
  the warnings. The request then ends with 400 and that error, whether the query is the
  graph's own or that of a threshold reached after any number of thresholds that
  succeeded. A backend error is a different failure: it drops the data and its message
  differs from any warnings message.
\<close>

theorem warnings_are_fatal:
  assumes "render dp q env = Inr s"
    and "QueryRange dp (backend w) s d = ((result, warnings, None), b)"
    and "warnings \<noteq> []"
  shows "executeGraphQuery dp q env d w =
           ((result, warnings, Some (''query warnings: '' @ fmtStrings warnings)),
            w\<lparr>trace := trace w @ [TemplateParse q, BackendQuery s d], backend := b\<rparr>)
         \<and> fst (executeGraph dp (g\<lparr>grQueryExpression := q\<rparr>) env d w) =
             Some (StatusBadRequest, JSONError (''query warnings: '' @ fmtStrings warnings))
         \<and> ((if thValue th \<noteq> [] then thValue th else thQueryExpression th) = q \<longrightarrow>
              fst (thresholdLoop dp env d (th # rest) acc w) =
                Inl (StatusBadRequest, JSONError (''query warnings: '' @ fmtStrings warnings)))
         \<and> (\<forall>w' r ws e b'. QueryRange dp (backend w') s d = ((r, ws, Some e), b') \<longrightarrow>
              fst (executeGraphQuery dp q env d w') =
                (None, ws, Some (''error querying prometheus: '' @ e))
              \<and> ''error querying prometheus: '' @ e \<noteq> ''query warnings: '' @ fmtStrings warnings)
         \<and> (\<forall>config req app dashboard r gr.
               ParseDuration dp (if Query req ''duration'' = [] then ''1h'' else Query req ''duration'')
                 = Inr d
               \<and> urlQuery req = env
               \<and> getApp config (paramApplication req) = Some app
               \<and> getDashBoard app (paramGroupkind req) = Some dashboard
               \<and> getRow dashboard (paramRow req) = Some r
               \<and> getGraph r (paramGraph req) = Some gr
               \<longrightarrow>
               (grQueryExpression gr = q \<longrightarrow>
                  execute dp config req w =
                    (Some (StatusBadRequest, JSONError (''query warnings: '' @ fmtStrings warnings)),
                     w\<lparr>trace := trace w @ [TemplateParse q, BackendQuery s d], backend := b\<rparr>))
               \<and> (\<forall>w0 w1 result0 raw pre rest' acc'.
                     executeGraphQuery dp (grQueryExpression gr) env d w0 = ((result0, [], None), w1)
                     \<and> jsonMarshal dp result0 = Inr raw
                     \<and> grThresholds gr = pre @ th # rest'
                     \<and> (if thValue th \<noteq> [] then thValue th else thQueryExpression th) = q
                     \<and> thresholdLoop dp env d pre [] w1 = (Inr acc', w)
                     \<longrightarrow>
                     execute dp config req w0 =
                       (Some (StatusBadRequest,
                              JSONError (''query warnings: '' @ fmtStrings warnings)),
                        w\<lparr>trace := trace w @ [TemplateParse q, BackendQuery s d],
                           backend := b\<rparr>)))"
proof -
  let ?msg = "''query warnings: '' @ fmtStrings warnings"
  let ?w' = "w\<lparr>trace := trace w @ [TemplateParse q, BackendQuery s d], backend := b\<rparr>"
  have q: "executeGraphQuery dp q env d w = ((result, warnings, Some ?msg), ?w')"
    using executeGraphQuery_rendered [OF assms(1,2)] assms(3) by simp
  have g: "executeGraph dp gr env d w = (Some (StatusBadRequest, JSONError ?msg), ?w')"
    if "grQueryExpression gr = q" for gr
    using q that by (simp add: executeGraph_def)
  have g1: "fst (executeGraph dp (g\<lparr>grQueryExpression := q\<rparr>) env d w) =
              Some (StatusBadRequest, JSONError ?msg)"
    using g [of "g\<lparr>grQueryExpression := q\<rparr>"] by simp
  have step: "thresholdStep dp env d th w = (Inl (StatusBadRequest, JSONError ?msg), ?w')"
    if "(if thValue th \<noteq> [] then thValue th else thQueryExpression th) = q"
    using thresholdStep_rendered [of dp th env s w d result warnings None b] that assms by simp
  have t: "(if thValue th \<noteq> [] then thValue th else thQueryExpression th) = q \<longrightarrow>
             fst (thresholdLoop dp env d (th # rest) acc w) =
               Inl (StatusBadRequest, JSONError ?msg)"
    using step by simp
  have e: "\<forall>w' r ws e b'. QueryRange dp (backend w') s d = ((r, ws, Some e), b') \<longrightarrow>
              fst (executeGraphQuery dp q env d w') =
                (None, ws, Some (''error querying prometheus: '' @ e))
              \<and> ''error querying prometheus: '' @ e \<noteq> ?msg"
    using executeGraphQuery_rendered [OF assms(1)] by auto
  have th_req: "executeGraph dp gr env d w0 = (Some (StatusBadRequest, JSONError ?msg), ?w')"
    if "executeGraphQuery dp (grQueryExpression gr) env d w0 = ((result0, [], None), w1)"
      and "jsonMarshal dp result0 = Inr raw"
      and "grThresholds gr = pre @ th # rest'"
      and "(if thValue th \<noteq> [] then thValue th else thQueryExpression th) = q"
      and "thresholdLoop dp env d pre [] w1 = (Inr acc', w)"
    for gr w0 w1 result0 raw pre rest' acc'
  proof -
    have "thresholdLoop dp env d (grThresholds gr) [] w1 =
            (Inl (StatusBadRequest, JSONError ?msg), ?w')"
      using that(3,5) step [OF that(4)] by (simp add: thresholdLoop_append)
    then show ?thesis
      using executeGraph_thresholds [OF that(1,2)] by simp
  qed
  have req: "\<forall>config req app dashboard r gr.
               ParseDuration dp (if Query req ''duration'' = [] then ''1h'' else Query req ''duration'')
                 = Inr d
               \<and> urlQuery req = env
               \<and> getApp config (paramApplication req) = Some app
               \<and> getDashBoard app (paramGroupkind req) = Some dashboard
               \<and> getRow dashboard (paramRow req) = Some r
               \<and> getGraph r (paramGraph req) = Some gr
               \<longrightarrow>
               (grQueryExpression gr = q \<longrightarrow>
                  execute dp config req w = (Some (StatusBadRequest, JSONError ?msg), ?w'))
               \<and> (\<forall>w0 w1 result0 raw pre rest' acc'.
                     executeGraphQuery dp (grQueryExpression gr) env d w0 = ((result0, [], None), w1)
                     \<and> jsonMarshal dp result0 = Inr raw
                     \<and> grThresholds gr = pre @ th # rest'
                     \<and> (if thValue th \<noteq> [] then thValue th else thQueryExpression th) = q
                     \<and> thresholdLoop dp env d pre [] w1 = (Inr acc', w)
                     \<longrightarrow>
                     execute dp config req w0 = (Some (StatusBadRequest, JSONError ?msg), ?w'))"
  proof (intro allI impI, elim conjE, intro conjI impI allI)
    fix config req app dashboard r gr
    assume res: "ParseDuration dp (if Query req ''duration'' = [] then ''1h'' else Query req ''duration'')
                 = Inr d"
      "urlQuery req = env"
      "getApp config (paramApplication req) = Some app"
      "getDashBoard app (paramGroupkind req) = Some dashboard"
      "getRow dashboard (paramRow req) = Some r"
      "getGraph r (paramGraph req) = Some gr"
    have ex: "execute dp config req u = executeGraph dp gr env d u" for u
      using execute_resolved [OF res(1,3,4,5), of u] res(2,6) by simp
    {
      assume "grQueryExpression gr = q"
      then show "execute dp config req w = (Some (StatusBadRequest, JSONError ?msg), ?w')"
        using g ex by simp
    next
      fix w0 w1 result0 raw pre rest' acc'
      assume "executeGraphQuery dp (grQueryExpression gr) env d w0 = ((result0, [], None), w1)
                     \<and> jsonMarshal dp result0 = Inr raw
                     \<and> grThresholds gr = pre @ th # rest'
                     \<and> (if thValue th \<noteq> [] then thValue th else thQueryExpression th) = q
                     \<and> thresholdLoop dp env d pre [] w1 = (Inr acc', w)"
      then show "execute dp config req w0 = (Some (StatusBadRequest, JSONError ?msg), ?w')"
        using th_req ex by metis
    }
  qed
  from q g1 t e req show ?thesis by (intro conjI)
qed

theorem warnings_are_fatal_witness:
  "render goDeps ''slow'' Map.empty = Inr ''slow''
   \<and> QueryRange goDeps 2 ''slow'' Hour = ((Some ''[[1,0.5]]'', [''partial data''], None), 3)
   \<and> executeGraphQuery goDeps ''slow'' Map.empty Hour startWorld =
       ((Some ''[[1,0.5]]'', [''partial data''], Some ''query warnings: [partial data]''),
        \<lparr>trace = [TemplateParse ''slow'', BackendQuery ''slow'' Hour], backend = 1\<rparr>)
   \<and> execute goDeps exampleConfig (exampleRequest ''cpu'' ''latency'' Map.empty) startWorld =
       (Some (400, JSONError ''query warnings: [partial data]''),
        \<lparr>trace = [TemplateParse ''up'', BackendQuery ''up'' Hour,
                  TemplateParse ''80'', BackendQuery ''80'' Hour,
                  TemplateParse ''slow'', BackendQuery ''slow'' Hour], backend = 3\<rparr>)
   \<and> fst (executeGraphQuery goDeps ''down'' Map.empty Hour startWorld) =
       (None, [], Some ''error querying prometheus: connection refused'')"
proof -
  let ?w2 = "\<lparr>trace = [TemplateParse ''up'', BackendQuery ''up'' Hour,
                       TemplateParse ''80'', BackendQuery ''80'' Hour], backend = 2::nat\<rparr>"
  let ?crit = "\<lparr>thKey = ''crit'', thName = ''critical'', thColor = ''red'', thValue = [],
                 thUnit = ''ms'', thQueryExpression = ''slow''\<rparr>"
  have r: "render goDeps ''slow'' Map.empty = Inr ''slow''"
    by (simp add: go_eval)
  have b: "QueryRange goDeps (backend ?w2) ''slow'' Hour =
             ((Some ''[[1,0.5]]'', [''partial data''], None), 3)"
    by (simp add: go_eval)
  have first: "executeGraphQuery goDeps ''slow'' Map.empty Hour startWorld =
       ((Some ''[[1,0.5]]'', [''partial data''], Some ''query warnings: [partial data]''),
        \<lparr>trace = [TemplateParse ''slow'', BackendQuery ''slow'' Hour], backend = 1\<rparr>)"
    by (simp add: go_eval handler_eval startWorld_def)
  have d: "fst (executeGraphQuery goDeps ''down'' Map.empty Hour startWorld) =
             (None, [], Some ''error querying prometheus: connection refused'')"
    by (simp add: go_eval handler_eval startWorld_def)
  have run: "execute goDeps exampleConfig (exampleRequest ''cpu'' ''latency'' Map.empty) startWorld =
       (Some (400, JSONError ''query warnings: [partial data]''),
        \<lparr>trace = [TemplateParse ''up'', BackendQuery ''up'' Hour,
                  TemplateParse ''80'', BackendQuery ''80'' Hour,
                  TemplateParse ''slow'', BackendQuery ''slow'' Hour], backend = 3\<rparr>)"
    by (simp add: go_eval handler_eval example_eval Hour_def)
  show ?thesis
    using r b first d run
      warnings_are_fatal [of goDeps "''slow''" Map.empty "''slow''" ?w2 Hour
        "Some ''[[1,0.5]]''" "[''partial data'']" 3 usageGraph ?crit "[]" "[]"]
    by simp
qed

section \<open>The response and its thresholds\<close>

lemma executeGraph_data:
  assumes "fst (executeGraph dp g env d w) = Some (st, JSONData data)"
  shows "st = StatusOK \<and>
         (\<exists>w1 w2. thresholdLoop dp env d (grThresholds g) [] w1 = (Inr (arThresholds data), w2))"
proof -
  obtain res w1 where q: "executeGraphQuery dp (grQueryExpression g) env d w = (res, w1)"
    by (cases "executeGraphQuery dp (grQueryExpression g) env d w")
  obtain lr w2 where l: "thresholdLoop dp env d (grThresholds g) [] w1 = (lr, w2)"
    by (cases "thresholdLoop dp env d (grThresholds g) [] w1")
  show ?thesis
  proof (cases lr)
    case (Inl r)
    with l have "\<exists>m. snd r = JSONError m \<or> snd r = JSONString m"
      using thresholdLoop_Inl by blast
    with assms q l Inl show ?thesis
      by (auto simp: executeGraph_def split: prod.splits option.splits sum.splits if_splits)
  next
    case (Inr rs)
    with assms q l have "st = StatusOK \<and> arThresholds data = rs"
      by (auto simp: executeGraph_def split: prod.splits option.splits sum.splits if_splits)
    with l Inr show ?thesis by blast
  qed
qed

lemma executeGraph_status:
  "fst (executeGraph dp g env d w) = Some (st, b) \<Longrightarrow>
   (st = StatusOK \<and> (\<exists>data. b = JSONData data))
   \<or> (st = StatusBadRequest \<and> (\<exists>m. b = JSONError m \<or> b = JSONString m))"
  by (auto simp: executeGraph_def split: prod.splits option.splits sum.splits if_splits
      dest: thresholdLoop_Inl)



text \<open>
  C8. Each threshold result carries the key, name, color and unit of its threshold, the
  marshaled result of the threshold's query as data, and the threshold's value as it is
  configured; the results follow the order of the thresholds, one for each.
\<close>

theorem threshold_results_fields:
  assumes "fst (executeGraph dp g env d w) = Some (st, JSONData data)"
  shows "list_all2
           (\<lambda>th r. trKey r = thKey th \<and> trName r = thName th \<and> trColor r = thColor th
                  \<and> trUnit r = thUnit th \<and> trValue r = thValue th
                  \<and> (\<exists>w0 w1 result.
                        executeGraphQuery dp
                          (if thValue th \<noteq> [] then thValue th else thQueryExpression th)
                          env d w0 = ((result, [], None), w1)
                        \<and> jsonMarshal dp result = Inr (trData r)))
           (grThresholds g) (arThresholds data)"
proof -
  from executeGraph_data [OF assms] obtain u1 u2 where
    loop: "thresholdLoop dp env d (grThresholds g) [] u1 = (Inr (arThresholds data), u2)"
    by blast
  from thresholdLoop_Inr [OF loop] have
    "list_all2 (\<lambda>th r. \<exists>w0 w1. thresholdStep dp env d th w0 = (Inr r, w1))
       (grThresholds g) (arThresholds data)"
    by simp
  then show ?thesis
    by (rule list_all2_mono) (blast dest: thresholdStep_Inr)
qed

theorem threshold_results_fields_witness:
  "fst (executeGraph goDeps usageGraph [''namespace'' \<mapsto> [''prod'']] Hour startWorld) =
     Some (200, JSONData
       \<lparr>arData = ''[[1,0.8]]'',
        arThresholds =
          [\<lparr>trData = ''[[1,0.8]]'', trKey = ''warn'', trName = ''warning'', trColor = ''yellow'',
            trValue = ''80'', trUnit = ''%''\<rparr>,
           \<lparr>trData = ''[[1,0.8]]'', trKey = ''crit'', trName = ''critical'', trColor = ''red'',
            trValue = [], trUnit = ''%''\<rparr>]\<rparr>)
   \<and> list_all2 (\<lambda>th r. trKey r = thKey th \<and> trValue r = thValue th)
       (grThresholds usageGraph)
       [\<lparr>trData = ''[[1,0.8]]'', trKey = ''warn'', trName = ''warning'', trColor = ''yellow'',
         trValue = ''80'', trUnit = ''%''\<rparr>,
        \<lparr>trData = ''[[1,0.8]]'', trKey = ''crit'', trName = ''critical'', trColor = ''red'',
         trValue = [], trUnit = ''%''\<rparr>]"
proof -
  let ?rs = "[\<lparr>trData = ''[[1,0.8]]'', trKey = ''warn'', trName = ''warning'', trColor = ''yellow'',
                trValue = ''80'', trUnit = ''%''\<rparr>,
              \<lparr>trData = ''[[1,0.8]]'', trKey = ''crit'', trName = ''critical'', trColor = ''red'',
                trValue = [], trUnit = ''%''\<rparr>]"
  have run: "fst (executeGraph goDeps usageGraph [''namespace'' \<mapsto> [''prod'']] Hour startWorld) =
               Some (200, JSONData \<lparr>arData = ''[[1,0.8]]'', arThresholds = ?rs\<rparr>)"
    by (simp add: go_eval handler_eval usageGraph_def startWorld_def)
  have "list_all2 (\<lambda>th r. trKey r = thKey th \<and> trValue r = thValue th) (grThresholds usageGraph) ?rs"
    using threshold_results_fields [OF run]
    by (simp only: AggregatedResponse.simps) (rule list_all2_mono, assumption, blast)
  with run show ?thesis by blast
qed

text \<open>
  The value carried is not the rendered one. The threshold of the graph \<^verbatim>\<open>limits\<close> has
  the value \<^verbatim>\<open>{{.limit}}\<close>, which renders to \<^verbatim>\<open>80\<close> for the request parameter
  \<^verbatim>\<open>limit=80\<close>: the query sent is \<^verbatim>\<open>80\<close> and the response carries \<^verbatim>\<open>{{.limit}}\<close>.
\<close>

theorem threshold_value_not_rendered:
  "execute goDeps exampleConfig (exampleRequest ''cpu'' ''limits'' [''limit'' \<mapsto> [''80'']]) startWorld =
     (Some (200, JSONData
        \<lparr>arData = ''[[1,0.8]]'',
         arThresholds =
           [\<lparr>trData = ''[[1,0.8]]'', trKey = ''limit'', trName = ''limit'', trColor = ''red'',
             trValue = ''{{.limit}}'', trUnit = ''%''\<rparr>]\<rparr>),
      \<lparr>trace = [TemplateParse ''up'', BackendQuery ''up'' Hour,
                TemplateParse ''{{.limit}}'', BackendQuery ''80'' Hour], backend = 2\<rparr>)
   \<and> render goDeps ''{{.limit}}'' [''limit'' \<mapsto> [''80'']] = Inr ''80''"
  by (simp add: go_eval handler_eval example_eval Hour_def)

section \<open>Escaping\<close>

lemma htmlReplacement_safe:
  "set (htmlReplacement c) \<inter> {CHR 0x00, CHR 0x22, CHR 0x27, CHR ''+'', CHR ''<'', CHR ''>''} = {}"
  by (simp add: htmlReplacement_def)

lemma htmlEscape_safe:
  "set (htmlEscape v) \<inter> {CHR 0x00, CHR 0x22, CHR 0x27, CHR ''+'', CHR ''<'', CHR ''>''} = {}"
proof (induction v)
  case Nil
  show ?case by (simp add: htmlEscape_def)
next
  case (Cons c v)
  have "htmlEscape (c # v) = htmlReplacement c @ htmlEscape v"
    by (simp add: htmlEscape_def)
  with Cons htmlReplacement_safe [of c] show ?case
    by (simp add: Int_Un_distrib2)
qed

lemma htmlEscape_split: "htmlEscape (x @ c # y) = htmlEscape x @ htmlReplacement c @ htmlEscape y"
  by (simp add: htmlEscape_def)

text \<open>
  C10. On the instance of the engine, a parameter that the template prints reaches the
  query through the HTML escaper: the rendered expression holds the escaped text of the
  joined values, in which every special character is replaced by its entity and none of
  the characters \<^verbatim>\<open>" ' < > +\<close> is left.
\<close>

theorem template_values_html_escaped:
  assumes "tmplParse goDeps q = Inr (pre @ FieldNode k # post)"
    and "env k = Some vs"
  shows "(\<exists>a b. render goDeps q env = Inr (a @ htmlEscape (Join vs '','') @ b)
               \<and> backendQueries (drop (length (trace w))
                     (trace (snd (executeGraphQuery goDeps q env d w)))) =
                   [(a @ htmlEscape (Join vs '','') @ b, d)])
         \<and> set (htmlEscape (Join vs '','')) \<inter>
             {CHR 0x00, CHR 0x22, CHR 0x27, CHR ''+'', CHR ''<'', CHR ''>''} = {}
         \<and> (\<forall>x c y. Join vs '','' = x @ c # y \<longrightarrow>
               htmlEscape (Join vs '','') = htmlEscape x @ htmlReplacement c @ htmlEscape y)
         \<and> htmlReplacement (CHR 0x22) = ''&#34;'' \<and> htmlReplacement (CHR ''&'') = ''&amp;''
         \<and> htmlReplacement (CHR 0x27) = ''&#39;'' \<and> htmlReplacement (CHR ''<'') = ''&lt;''
         \<and> htmlReplacement (CHR ''>'') = ''&gt;''"
proof -
  let ?a = "concat (map (printNode (env1 env)) pre)"
  let ?b = "concat (map (printNode (env1 env)) post)"
  have r: "render goDeps q env = Inr (?a @ htmlEscape (Join vs '','') @ ?b)"
    using assms by (simp add: render_def goDeps_def goExecute_def env1_def)
  have "backendQueries (drop (length (trace w))
          (trace (snd (executeGraphQuery goDeps q env d w)))) =
        [(?a @ htmlEscape (Join vs '','') @ ?b, d)]"
    by (simp add: executeGraphQuery_trace r)
  with r have sent: "\<exists>a b. render goDeps q env = Inr (a @ htmlEscape (Join vs '','') @ b)
               \<and> backendQueries (drop (length (trace w))
                     (trace (snd (executeGraphQuery goDeps q env d w)))) =
                   [(a @ htmlEscape (Join vs '','') @ b, d)]"
    by blast
  have table: "htmlReplacement (CHR 0x22) = ''&#34;'' \<and> htmlReplacement (CHR ''&'') = ''&amp;''
         \<and> htmlReplacement (CHR 0x27) = ''&#39;'' \<and> htmlReplacement (CHR ''<'') = ''&lt;''
         \<and> htmlReplacement (CHR ''>'') = ''&gt;''"
    by (simp add: htmlReplacement_def)
  from sent htmlEscape_safe [of "Join vs '',''"] table show ?thesis
    by (simp add: htmlEscape_split)
qed

theorem template_values_html_escaped_witness:
  "tmplParse goDeps ''sum(rate(cpu{ns={{.namespace}}}[5m]))'' =
     Inr ([TextNode ''sum(rate(cpu{ns=''] @ FieldNode ''namespace'' # [TextNode ''}[5m]))''])
   \<and> render goDeps ''sum(rate(cpu{ns={{.namespace}}}[5m]))''
        [''namespace'' \<mapsto> [[CHR ''a'', CHR 0x22, CHR ''<'', CHR ''b'']]] =
       Inr ''sum(rate(cpu{ns=a&#34;&lt;b}[5m]))''
   \<and> set (htmlEscape [CHR ''a'', CHR 0x22, CHR ''<'', CHR ''b'']) \<inter>
         {CHR 0x00, CHR 0x22, CHR 0x27, CHR ''+'', CHR ''<'', CHR ''>''} = {}"
proof -
  have p: "tmplParse goDeps ''sum(rate(cpu{ns={{.namespace}}}[5m]))'' =
     Inr ([TextNode ''sum(rate(cpu{ns=''] @ FieldNode ''namespace'' # [TextNode ''}[5m]))''])"
    by (simp add: go_eval)
  have e: "[''namespace'' \<mapsto> [[CHR ''a'', CHR 0x22, CHR ''<'', CHR ''b'']]] ''namespace'' =
             Some [[CHR ''a'', CHR 0x22, CHR ''<'', CHR ''b'']]"
    by simp
  have r: "render goDeps ''sum(rate(cpu{ns={{.namespace}}}[5m]))''
        [''namespace'' \<mapsto> [[CHR ''a'', CHR 0x22, CHR ''<'', CHR ''b'']]] =
       Inr ''sum(rate(cpu{ns=a&#34;&lt;b}[5m]))''"
    by (simp add: go_eval)
  show ?thesis
    using p r e template_values_html_escaped
      [of "''sum(rate(cpu{ns={{.namespace}}}[5m]))''" "[TextNode ''sum(rate(cpu{ns='']"
          "''namespace''" "[TextNode ''}[5m]))'']"
          "[''namespace'' \<mapsto> [[CHR ''a'', CHR 0x22, CHR ''<'', CHR ''b'']]]"
          "[[CHR ''a'', CHR 0x22, CHR ''<'', CHR ''b'']]" startWorld Hour]
    by simp
qed

end
